theory Spec2Isabelle
  imports Complex_Main
begin

section \<open>Numbers\<close>

text \<open>
  Python's floats are idealised as rationals: every arithmetic operation is exact.
  The one place where the binary representation decides an outcome that the exact value
  leaves open is \<^verbatim>\<open>round(x, 2)\<close> on a value that lies exactly halfway between two
  two-decimal numbers (\<^verbatim>\<open>round(0.9 * 0.85, 2)\<close> is \<^verbatim>\<open>0.77\<close>, \<^verbatim>\<open>round(0.125, 2)\<close> is
  \<^verbatim>\<open>0.12\<close>). The choice at a tie is therefore a parameter \<open>up\<close> of the model, and every
  theorem below holds for each choice. \<open>ties_to_even\<close> is Python's rule for values the
  binary format represents exactly.
\<close>

definition round_to_int :: "(rat \<Rightarrow> bool) \<Rightarrow> rat \<Rightarrow> int" where
  "round_to_int up y =
     (let f = \<lfloor>y\<rfloor>; d = y - of_int f
      in if d < 1 / 2 then f
         else if 1 / 2 < d then f + 1
         else if up y then f + 1 else f)"

definition round2 :: "(rat \<Rightarrow> bool) \<Rightarrow> rat \<Rightarrow> rat" where
  "round2 up x = of_int (round_to_int up (x * 100)) / 100"

definition ties_to_even :: "rat \<Rightarrow> bool" where
  "ties_to_even y = odd \<lfloor>y\<rfloor>"

definition two_decimals :: "rat \<Rightarrow> bool" where
  "two_decimals x = (of_int \<lfloor>x * 100\<rfloor> = x * 100)"

section \<open>Text analyzer: readability\<close>

text \<open>
  \<^verbatim>\<open>TextAnalyzer._calculate_readability\<close>. The NLTK tokenizer is an external service: the
  model takes its two outputs for the text, \<^verbatim>\<open>nltk.sent_tokenize(text)\<close> and
  \<^verbatim>\<open>nltk.word_tokenize(text)\<close>, as the arguments \<open>sentences\<close> and \<open>words\<close>.
  \<^verbatim>\<open>analyze\<close> stores the result under the key \<^verbatim>\<open>'readability'\<close>.
\<close>

record readability =
  score :: rat
  level :: string

definition readability_level :: "rat \<Rightarrow> string" where
  "readability_level flesch_score =
     (if flesch_score \<ge> 90 then ''Very Easy''
      else if flesch_score \<ge> 80 then ''Easy''
      else if flesch_score \<ge> 70 then ''Fairly Easy''
      else if flesch_score \<ge> 60 then ''Standard''
      else if flesch_score \<ge> 50 then ''Fairly Difficult''
      else if flesch_score \<ge> 30 then ''Difficult''
      else ''Very Difficult'')"

definition calculate_readability ::
  "(rat \<Rightarrow> bool) \<Rightarrow> string list \<Rightarrow> string list \<Rightarrow> readability" where
  "calculate_readability up sentences words =
     (if sentences = [] \<or> words = [] then \<lparr>score = 0, level = ''Unknown''\<rparr>
      else
        let avg_sentence_length = of_nat (length words) / of_nat (length sentences);
            avg_syllables_per_word = 1.5;
            flesch_score = 206.835 - (1.015 * avg_sentence_length)
                             - (84.6 * avg_syllables_per_word)
        in \<lparr>score = round2 up flesch_score, level = readability_level flesch_score\<rparr>)"

text \<open>The formula of the specification, as a function of the two counts.\<close>

definition flesch_of_counts :: "nat \<Rightarrow> nat \<Rightarrow> rat" where
  "flesch_of_counts word_count sentence_count =
     206.835 - 1.015 * (of_nat word_count / of_nat sentence_count) - 84.6 * 1.5"

definition readability_of_counts :: "(rat \<Rightarrow> bool) \<Rightarrow> nat \<Rightarrow> nat \<Rightarrow> readability" where
  "readability_of_counts up word_count sentence_count =
     (if word_count = 0 \<or> sentence_count = 0 then \<lparr>score = 0, level = ''Unknown''\<rparr>
      else \<lparr>score = round2 up (flesch_of_counts word_count sentence_count),
            level = readability_level (flesch_of_counts word_count sentence_count)\<rparr>)"

section \<open>The analysis result\<close>

text \<open>
  The dictionary \<^verbatim>\<open>TextAnalyzer.analyze\<close> returns. The consumers read its five top-level
  entries either with \<^verbatim>\<open>analysis[key]\<close> (a missing key raises \<^verbatim>\<open>KeyError\<close>) or with
  \<^verbatim>\<open>analysis.get(key, default)\<close>, and the suggestion generator also receives the empty
  dictionary, so each entry is optional in the model: \<open>None\<close> is a missing key. Where the
  source uses the same key in several dictionaries (\<^verbatim>\<open>'type'\<close>, \<^verbatim>\<open>'suggestion'\<close>,
  \<^verbatim>\<open>'word_count'\<close>), the field names carry a prefix.
\<close>

record issue =
  issue_type :: string
  issue_text :: string
  issue_suggestion :: string
  issue_position :: "nat option"

record basic_stats =
  sentence_count :: nat
  word_count :: nat
  avg_words_per_sentence :: rat
  char_count :: nat
  unique_words :: nat

record sentence_analysis =
  total_sentences :: nat
  sentence_types :: "string list"
  sentence_lengths :: "nat list"
  variety_score :: rat

record analysis =
  basic_stats_of :: "basic_stats option"
  readability_of :: "readability option"
  style_issues :: "issue list option"
  grammar_issues :: "issue list option"
  sentence_analysis_of :: "sentence_analysis option"

definition empty_analysis :: analysis where
  "empty_analysis =
     \<lparr>basic_stats_of = None, readability_of = None, style_issues = None,
      grammar_issues = None, sentence_analysis_of = None\<rparr>"

section \<open>Progress tracker\<close>

text \<open>
  A timestamp is the ISO string of a naive \<^verbatim>\<open>datetime\<close>; the model keeps what
  \<^verbatim>\<open>datetime.fromisoformat\<close> reads back from it: the calendar day (as a day number) and the
  microsecond within the day. \<^verbatim>\<open>datetime.now()\<close> is an input of the operations that call it.
\<close>

record datetime =
  day :: int
  microsecond_of_day :: nat

definition timedelta_days :: "datetime \<Rightarrow> datetime \<Rightarrow> int" where
  \<comment> \<open>\<^verbatim>\<open>(later - earlier).days\<close>: a timedelta is normalised with floor division.\<close>
  "timedelta_days later earlier =
     ((day later * 86400000000 + int (microsecond_of_day later))
        - (day earlier * 86400000000 + int (microsecond_of_day earlier))) div 86400000000"

record metrics =
  readability_score :: rat
  readability_level_of :: string
  style_issues_count :: nat
  grammar_issues_count :: nat
  avg_sentence_length :: rat
  sentence_variety :: rat
  metrics_word_count :: nat

text \<open>
  A submission also stores the suggestions it was tracked with; the tracker never looks
  into them, so their type is a parameter.
\<close>

record 's submission =
  timestamp :: datetime
  submission_analysis :: analysis
  submission_suggestions :: 's
  metrics :: metrics

datatype progress =
    New_user
  | Insufficient_data
  | Tracked (total_submissions: nat) (readability_change: rat) (style_improvement: int)
      (grammar_improvement: int) (readability_trend: string) (days_active: nat)
      (consistency_score: rat)

fun status :: "progress \<Rightarrow> string" where
  "status New_user = ''new_user''"
| "status Insufficient_data = ''insufficient_data''"
| "status (Tracked n rc si gi tr da cs) = ''tracked''"

fun message :: "progress \<Rightarrow> string option" where
  "message Insufficient_data = Some ''Need more submissions to track progress''"
| "message p = None"

definition extract_metrics :: "analysis \<Rightarrow> metrics option" where
  \<comment> \<open>\<open>None\<close> is the \<^verbatim>\<open>KeyError\<close> of a missing entry.\<close>
  "extract_metrics a =
     (case (readability_of a, style_issues a, grammar_issues a, basic_stats_of a,
            sentence_analysis_of a) of
        (Some r, Some si, Some gi, Some bs, Some sa) \<Rightarrow>
          Some \<lparr>readability_score = score r,
                readability_level_of = level r,
                style_issues_count = length si,
                grammar_issues_count = length gi,
                avg_sentence_length = avg_words_per_sentence bs,
                sentence_variety = variety_score sa,
                metrics_word_count = word_count bs\<rparr>
      | _ \<Rightarrow> None)"

definition calculate_days_active :: "'s submission list \<Rightarrow> nat" where
  "calculate_days_active submissions =
     (if submissions = [] then 0
      else length (remdups (map (\<lambda>s. day (timestamp s)) submissions)))"

definition calculate_consistency_score :: "'s submission list \<Rightarrow> rat" where
  "calculate_consistency_score submissions =
     (if length submissions < 2 then 0
      else
        let timestamps = map timestamp submissions;
            intervals = map (\<lambda>i. timedelta_days (timestamps ! (i + 1)) (timestamps ! i))
                          [0..<length timestamps - 1]
        in if intervals = [] then 0
           else
             let avg_interval = of_int (sum_list intervals) / of_nat (length intervals)
             in if avg_interval \<le> (1 :: rat) then 1
                else if avg_interval \<le> 3 then 0.8
                else if avg_interval \<le> 7 then 0.6
                else 0.4)"

definition calculate_progress :: "(rat \<Rightarrow> bool) \<Rightarrow> 's submission list \<Rightarrow> progress" where
  "calculate_progress up submissions =
     (if length submissions < 2 then Insufficient_data
      else
        let first = metrics (hd submissions);
            last_m = metrics (last submissions);
            recent = (if length submissions \<ge> 5
                      then drop (length submissions - 5) submissions else submissions);
            readability_change = readability_score last_m - readability_score first;
            style_improvement = int (style_issues_count first) - int (style_issues_count last_m);
            grammar_improvement =
              int (grammar_issues_count first) - int (grammar_issues_count last_m);
            recent_readability = map (\<lambda>s. readability_score (metrics s)) recent;
            readability_trend =
              (if last recent_readability > hd recent_readability
               then ''improving'' else ''declining'')
        in Tracked (length submissions) (round2 up readability_change) style_improvement
             grammar_improvement readability_trend (calculate_days_active submissions)
             (calculate_consistency_score submissions))"

record improvement_area =
  area :: string
  area_priority :: string
  area_suggestion :: string

definition identify_improvement_areas :: "'s submission list \<Rightarrow> improvement_area list" where
  "identify_improvement_areas submissions =
     (if submissions = [] then []
      else
        let latest = metrics (last submissions) in
          (if readability_score latest < 60
           then [\<lparr>area = ''readability'', area_priority = ''high'',
                   area_suggestion = ''Focus on simplifying complex sentences''\<rparr>] else [])
          @ (if grammar_issues_count latest > 3
             then [\<lparr>area = ''grammar'', area_priority = ''high'',
                     area_suggestion = ''Review common grammar rules''\<rparr>] else [])
          @ (if sentence_variety latest < 0.3
             then [\<lparr>area = ''sentence_variety'', area_priority = ''medium'',
                     area_suggestion = ''Mix different sentence types and lengths''\<rparr>] else [])
          @ (if style_issues_count latest > 5
             then [\<lparr>area = ''writing_style'', area_priority = ''medium'',
                     area_suggestion = ''Focus on active voice and concise language''\<rparr>]
             else []))"

record achievement =
  name :: string
  description :: string
  earned_at :: datetime

definition calculate_achievements :: "'s submission list \<Rightarrow> achievement list" where
  "calculate_achievements submissions =
     (if length submissions \<ge> 5
      then [\<lparr>name = ''Getting Started'',
              description = ''Completed 5 writing submissions'',
              earned_at = timestamp (submissions ! 4)\<rparr>] else [])
     @ (if length submissions \<ge> 10
        then [\<lparr>name = ''Consistent Writer'',
                description = ''Completed 10 writing submissions'',
                earned_at = timestamp (submissions ! 9)\<rparr>] else [])
     @ (if length submissions \<ge> 3
        then
          let recent_readability =
                map (\<lambda>s. readability_score (metrics s))
                  (drop (length submissions - 3) submissions)
          in if list_all (\<lambda>i. recent_readability ! i > recent_readability ! (i - 1)) [1..<3]
             then [\<lparr>name = ''Rising Star'',
                     description = ''Improved readability for 3 consecutive submissions'',
                     earned_at = timestamp (last submissions)\<rparr>]
             else []
        else [])"

text \<open>
  Persistent storage: one JSON file per user identifier, read and written whole. The
  model is a map from a user identifier to the record in its file; \<open>None\<close> is a file that
  does not exist. An operation takes the storage and returns it as it leaves it. The file
  of a user is \<^verbatim>\<open>storage_path/user_id.json\<close>: the map stands for the directory as long as
  the identifiers are plain file names, without a path separator.
\<close>

record 's user_data =
  user_id :: string
  created_at :: datetime
  submissions :: "'s submission list"
  progress :: progress

type_synonym 's storage = "string \<rightharpoonup> 's user_data"

definition load_user_data :: "'s storage \<Rightarrow> datetime \<Rightarrow> string \<Rightarrow> 's user_data" where
  "load_user_data store now uid =
     (case store uid of
        Some data \<Rightarrow> data
      | None \<Rightarrow> \<lparr>user_id = uid, created_at = now, submissions = [], progress = New_user\<rparr>)"

definition save_user_data :: "'s storage \<Rightarrow> string \<Rightarrow> 's user_data \<Rightarrow> 's storage" where
  "save_user_data store uid data = store(uid \<mapsto> data)"

record track_result =
  submission_tracked :: bool
  current_metrics :: metrics
  overall_progress :: progress
  improvement_areas :: "improvement_area list"

definition track_submission ::
  "(rat \<Rightarrow> bool) \<Rightarrow> 's storage \<Rightarrow> datetime \<Rightarrow> datetime \<Rightarrow> string \<Rightarrow> analysis \<Rightarrow> 's
     \<Rightarrow> track_result option \<times> 's storage" where
  \<comment> \<open>\<open>None\<close> is the \<^verbatim>\<open>KeyError\<close> of \<open>extract_metrics\<close>, raised before anything is loaded.
      The clock is read twice: \<open>now\<close> stamps the submission, \<open>later\<close> is what
      \<open>load_user_data\<close> reads when it has to make a new record.\<close>
  "track_submission up store now later uid analysis_result suggestions =
     (case extract_metrics analysis_result of
        None \<Rightarrow> (None, store)
      | Some m \<Rightarrow>
          let submission = \<lparr>timestamp = now, submission_analysis = analysis_result,
                             submission_suggestions = suggestions, metrics = m\<rparr>;
              user_data = load_user_data store later uid;
              user_data = user_data\<lparr>submissions := submissions user_data @ [submission]\<rparr>;
              user_data = user_data\<lparr>progress := calculate_progress up (submissions user_data)\<rparr>;
              store' = save_user_data store uid user_data
          in (Some \<lparr>submission_tracked = True,
                    current_metrics = metrics submission,
                    overall_progress = progress user_data,
                    improvement_areas = identify_improvement_areas (submissions user_data)\<rparr>,
              store'))"

datatype 's report =
    No_data
  | Report (report_user_id: string) (member_since: datetime) (report_total_submissions: nat)
      (report_progress: progress) (recent_submissions: "'s submission list")
      (report_improvement_areas: "improvement_area list") (achievements: "achievement list")

definition get_user_report ::
  "'s storage \<Rightarrow> datetime \<Rightarrow> string \<Rightarrow> 's report \<times> 's storage" where
  "get_user_report store now uid =
     (let user_data = load_user_data store now uid
      in if submissions user_data = [] then (No_data, store)
         else (Report uid (created_at user_data) (length (submissions user_data))
                 (progress user_data)
                 (drop (length (submissions user_data) - 5) (submissions user_data))
                 (identify_improvement_areas (submissions user_data))
                 (calculate_achievements (submissions user_data)),
               store))"

text \<open>
  Sample data: the two analyses of the module's own test block (the entries its inner
  dictionaries leave out are filled with zeros and empty strings), and the submissions
  \<open>track_submission\<close> stores for them one second apart.
\<close>

definition analysis1 :: analysis where
  "analysis1 =
     \<lparr>basic_stats_of = Some \<lparr>sentence_count = 0, word_count = 300,
                              avg_words_per_sentence = 25, char_count = 0, unique_words = 0\<rparr>,
      readability_of = Some \<lparr>score = 45, level = ''Difficult''\<rparr>,
      style_issues = Some
        [\<lparr>issue_type = ''passive_voice'', issue_text = [], issue_suggestion = [],
          issue_position = None\<rparr>,
         \<lparr>issue_type = ''wordiness'', issue_text = [], issue_suggestion = [],
          issue_position = None\<rparr>],
      grammar_issues = Some
        [\<lparr>issue_type = ''spelling'', issue_text = [], issue_suggestion = [],
          issue_position = None\<rparr>],
      sentence_analysis_of = Some \<lparr>total_sentences = 0, sentence_types = [],
                                    sentence_lengths = [], variety_score = 0.2\<rparr>\<rparr>"

definition analysis2 :: analysis where
  "analysis2 =
     \<lparr>basic_stats_of = Some \<lparr>sentence_count = 0, word_count = 350,
                              avg_words_per_sentence = 20, char_count = 0, unique_words = 0\<rparr>,
      readability_of = Some \<lparr>score = 55, level = ''Fairly Difficult''\<rparr>,
      style_issues = Some
        [\<lparr>issue_type = ''passive_voice'', issue_text = [], issue_suggestion = [],
          issue_position = None\<rparr>],
      grammar_issues = Some [],
      sentence_analysis_of = Some \<lparr>total_sentences = 0, sentence_types = [],
                                    sentence_lengths = [], variety_score = 0.4\<rparr>\<rparr>"

definition time1 :: datetime where
  "time1 = \<lparr>day = 739558, microsecond_of_day = 43200000000\<rparr>"

definition time2 :: datetime where
  "time2 = \<lparr>day = 739558, microsecond_of_day = 43201000000\<rparr>"

definition submission1 :: "unit submission" where
  "submission1 =
     \<lparr>timestamp = time1, submission_analysis = analysis1, submission_suggestions = (),
      metrics = \<lparr>readability_score = 45, readability_level_of = ''Difficult'',
                 style_issues_count = 2, grammar_issues_count = 1, avg_sentence_length = 25,
                 sentence_variety = 0.2, metrics_word_count = 300\<rparr>\<rparr>"

definition submission2 :: "unit submission" where
  "submission2 =
     \<lparr>timestamp = time2, submission_analysis = analysis2, submission_suggestions = (),
      metrics = \<lparr>readability_score = 55, readability_level_of = ''Fairly Difficult'',
                 style_issues_count = 1, grammar_issues_count = 0, avg_sentence_length = 20,
                 sentence_variety = 0.4, metrics_word_count = 350\<rparr>\<rparr>"

section \<open>Python strings\<close>

text \<open>
  A \<^verbatim>\<open>str\<close> is modelled as a list of characters with code points below 256. On these,
  \<^verbatim>\<open>str.isspace\<close> holds for the code points 9 to 13, 28 to 32, 133 and 160, and
  \<^verbatim>\<open>str.lower\<close> moves A to Z and the accented capitals 192 to 222 (but not 215, the
  multiplication sign) up by 32.
\<close>

definition isspace :: "char \<Rightarrow> bool" where
  "isspace c = (of_char c \<in> set [9, 10, 11, 12, 13, 28, 29, 30, 31, 32, 133, 160 :: nat])"

definition strip :: "string \<Rightarrow> string" where
  \<comment> \<open>\<^verbatim>\<open>s.strip()\<close>\<close>
  "strip s = rev (dropWhile isspace (rev (dropWhile isspace s)))"

fun split_ws_from :: "string \<Rightarrow> string \<Rightarrow> string list" where
  "split_ws_from word [] = (if word = [] then [] else [word])"
| "split_ws_from word (c # cs) =
     (if isspace c then (if word = [] then split_ws_from [] cs else word # split_ws_from [] cs)
      else split_ws_from (word @ [c]) cs)"

definition split_ws :: "string \<Rightarrow> string list" where
  \<comment> \<open>\<^verbatim>\<open>s.split()\<close>: the maximal runs of characters that are not whitespace\<close>
  "split_ws s = split_ws_from [] s"

fun starts_with :: "string \<Rightarrow> string \<Rightarrow> bool" where
  "starts_with [] s = True"
| "starts_with (p # ps) [] = False"
| "starts_with (p # ps) (c # cs) = (p = c \<and> starts_with ps cs)"

fun contains :: "string \<Rightarrow> string \<Rightarrow> bool" where
  \<comment> \<open>\<^verbatim>\<open>p in s\<close>\<close>
  "contains p [] = (p = [])"
| "contains p (c # cs) = (starts_with p (c # cs) \<or> contains p cs)"

fun split_from :: "string \<Rightarrow> string \<Rightarrow> string \<Rightarrow> string list" where
  "split_from sep piece [] = [piece]"
| "split_from sep piece (c # cs) =
     (if sep \<noteq> [] \<and> starts_with sep (c # cs)
      then piece # split_from sep [] (drop (length sep) (c # cs))
      else split_from sep (piece @ [c]) cs)"

definition split_str :: "string \<Rightarrow> string \<Rightarrow> string list" where
  \<comment> \<open>\<^verbatim>\<open>s.split(sep)\<close> for a separator that is not empty\<close>
  "split_str sep s = split_from sep [] s"

fun join :: "string \<Rightarrow> string list \<Rightarrow> string" where
  \<comment> \<open>\<^verbatim>\<open>sep.join(xs)\<close>\<close>
  "join sep [] = []"
| "join sep [x] = x"
| "join sep (x # y # ys) = x @ sep @ join sep (y # ys)"

definition lower_char :: "char \<Rightarrow> char" where
  "lower_char c =
     (let n = of_char c :: nat
      in if (65 \<le> n \<and> n \<le> 90) \<or> (192 \<le> n \<and> n \<le> 222 \<and> n \<noteq> 215)
         then char_of (n + 32) else c)"

definition lower :: "string \<Rightarrow> string" where
  \<comment> \<open>\<^verbatim>\<open>s.lower()\<close>\<close>
  "lower s = map lower_char s"

section \<open>Input handler and the head of the pipeline\<close>

datatype validation =
    Invalid (error: string)
  | Valid (valid_text: string) (valid_format: string) (valid_word_count: nat)
      (valid_char_count: nat)

definition valid_formats :: "string list" where
  "valid_formats = [''email'', ''essay'', ''report'', ''creative'', ''general'']"

text \<open>
  An optional string argument is \<open>None\<close> for Python's \<^verbatim>\<open>None\<close>; it is falsy when it is
  \<^verbatim>\<open>None\<close> or the empty string.
\<close>

fun truthy :: "string option \<Rightarrow> bool" where
  "truthy None = False"
| "truthy (Some s) = (s \<noteq> [])"

definition validate_input :: "string \<Rightarrow> string option \<Rightarrow> validation" where
  "validate_input text writing_format =
     (if text = [] \<or> strip text = [] then Invalid ''Text cannot be empty''
      else if length (strip text) < 10 then Invalid ''Text too short for meaningful analysis''
      else
        let writing_format =
              (if truthy writing_format \<and> the writing_format \<notin> set valid_formats
               then Some ''general'' else writing_format)
        in Valid (strip text)
             (if truthy writing_format then the writing_format else ''general'')
             (length (split_ws text)) (length text))"

record prepared_input =
  prepared_text :: string
  metadata_format :: string
  metadata_word_count :: nat
  metadata_char_count :: nat

definition prepare_for_analysis :: "validation \<Rightarrow> validation + prepared_input" where
  \<comment> \<open>An input that is not valid is handed back as it is (\<open>Inl\<close>).\<close>
  "prepare_for_analysis validated_input =
     (case validated_input of
        Invalid e \<Rightarrow> Inl (Invalid e)
      | Valid t f w c \<Rightarrow>
          Inr \<lparr>prepared_text = t, metadata_format = f, metadata_word_count = w,
               metadata_char_count = c\<rparr>)"

text \<open>
  \<^verbatim>\<open>WriteCoachPipeline.process_text\<close>. Steps 3 to 7 (analysis, classification, suggestions,
  tracking and formatting) are the parameter \<open>stages\<close>: a function of the prepared text,
  the user identifier, the specified format and the state of the services that gives the
  returned string (\<open>None\<close> when a step raises) and the new state.
\<close>

definition process_text ::
  "(string \<Rightarrow> string \<Rightarrow> string option \<Rightarrow> 'st \<Rightarrow> string option \<times> 'st)
     \<Rightarrow> string \<Rightarrow> string \<Rightarrow> string option \<Rightarrow> 'st \<Rightarrow> string option \<times> 'st" where
  "process_text stages text uid specified_format st =
     (let validated_input = validate_input text specified_format
      in case validated_input of
           Invalid e \<Rightarrow> (Some (''Error: '' @ e), st)
         | Valid _ _ _ _ \<Rightarrow>
             (case prepare_for_analysis validated_input of
                Inr prepared \<Rightarrow> stages (prepared_text prepared) uid specified_format st
              | Inl _ \<Rightarrow> (None, st)))"

section \<open>Suggestion generator\<close>

text \<open>
  The values that come out of \<^verbatim>\<open>json.loads\<close>. A suggestion object carries such values
  where the source copies them from the parsed reply; a Python string is \<open>JString\<close>.
\<close>

datatype json =
    JNull
  | JBool bool
  | JInt int
  | JFloat rat
  | JString string
  | JArray "json list"
  | JObject "(string \<times> json) list"

record improvement =
  improvement_type :: string
  problem :: json
  improvement_suggestion :: json
  priority :: string

record rewrite =
  original :: string
  suggested :: json
  reason :: string

record suggestions =
  overall_feedback :: json
  specific_improvements :: "improvement list"
  rewrite_suggestions :: "rewrite list"
  format_specific_tips :: "string list"

subsection \<open>The deterministic strategy\<close>

definition get_overall_feedback :: "analysis \<Rightarrow> string \<Rightarrow> string" where
  "get_overall_feedback a writing_format =
     (let readability = (case readability_of a of None \<Rightarrow> ''Unknown'' | Some r \<Rightarrow> level r)
      in if readability \<in> set [''Very Easy'', ''Easy'']
         then ''Your '' @ writing_format
              @ '' is very readable. Consider adding more sophisticated vocabulary where appropriate.''
         else if readability \<in> set [''Standard'', ''Fairly Easy'']
         then ''Your '' @ writing_format
              @ '' has good readability. Minor improvements could enhance clarity.''
         else ''Your '' @ writing_format
              @ '' might be difficult to read. Consider simplifying complex sentences.'')"

definition issue_improvement :: "string \<Rightarrow> issue \<Rightarrow> improvement" where
  "issue_improvement p i =
     \<lparr>improvement_type = issue_type i, problem = JString (issue_text i),
      improvement_suggestion = JString (issue_suggestion i), priority = p\<rparr>"

definition get_specific_improvements :: "analysis \<Rightarrow> improvement list" where
  \<comment> \<open>Each \<^verbatim>\<open>for\<close> loop appends to \<^verbatim>\<open>improvements\<close>.\<close>
  "get_specific_improvements a =
     (let improvements = [];
          improvements =
            foldl (\<lambda>acc i. acc @ [issue_improvement ''medium'' i]) improvements
              (case style_issues a of None \<Rightarrow> [] | Some is \<Rightarrow> is);
          improvements =
            foldl (\<lambda>acc i. acc @ [issue_improvement ''high'' i]) improvements
              (case grammar_issues a of None \<Rightarrow> [] | Some is \<Rightarrow> is);
          variety = (case sentence_analysis_of a of None \<Rightarrow> 1 | Some sa \<Rightarrow> variety_score sa)
      in if variety < 0.3
         then improvements @
                [\<lparr>improvement_type = ''sentence_variety'',
                  problem = JString ''Limited sentence variety'',
                  improvement_suggestion = JString ''Mix different sentence types and lengths'',
                  priority = ''low''\<rparr>]
         else improvements)"

definition simplify_sentence :: "string \<Rightarrow> string" where
  "simplify_sentence sentence =
     (let words = split_ws sentence
      in if length words > 25
         then let midpoint = length words div 2
              in join '' '' (take midpoint words) @ ''. '' @ join '' '' (drop midpoint words)
         else sentence)"

definition get_rewrite_suggestions :: "string \<Rightarrow> analysis \<Rightarrow> rewrite list" where
  "get_rewrite_suggestions text a =
     (let sentences = split_str ''.'' text
      in foldl (\<lambda>rewrites sentence.
                  if length (split_ws sentence) > 25
                  then rewrites @ [\<lparr>original = strip sentence,
                                     suggested = JString (simplify_sentence sentence),
                                     reason = ''Sentence too long''\<rparr>]
                  else rewrites)
           [] sentences)"

definition format_tips :: "(string \<times> string list) list" where
  "format_tips =
     [(''email'', [''Start with a clear subject line'',
                   ''Keep paragraphs short (2-3 sentences)'',
                   ''End with a clear call to action'']),
      (''essay'', [''Include a strong thesis statement'',
                   ''Use topic sentences for each paragraph'',
                   ''Provide evidence for your claims'']),
      (''report'', [''Use headings and subheadings'',
                    ''Include an executive summary'',
                    ''Use bullet points for key information'']),
      (''creative'', [''Show, don't tell'',
                      ''Use vivid sensory details'',
                      ''Develop unique voice and style'']),
      (''general'', [''Be clear and concise'',
                     ''Use appropriate tone for audience'',
                     ''Proofread carefully''])]"

definition get_format_tips :: "string \<Rightarrow> string list" where
  "get_format_tips writing_format =
     (case map_of format_tips writing_format of
        Some tips \<Rightarrow> tips
      | None \<Rightarrow> the (map_of format_tips ''general''))"

definition generate_mock_suggestions :: "string \<Rightarrow> analysis \<Rightarrow> string \<Rightarrow> suggestions" where
  "generate_mock_suggestions text a writing_format =
     \<lparr>overall_feedback = JString (get_overall_feedback a writing_format),
      specific_improvements = get_specific_improvements a,
      rewrite_suggestions = get_rewrite_suggestions text a,
      format_specific_tips = get_format_tips writing_format\<rparr>"

subsection \<open>The external strategies\<close>

text \<open>
  \<^verbatim>\<open>json.loads\<close> is library code. The model fixes the one part of its behaviour that the
  first significant character decides: after leading blanks, tabs and line ends, a JSON
  document starts with a quote, a brace, a bracket, a minus sign, a digit or one of the
  letters n, t, f, N, I; any other text, and the empty one, raises \<^verbatim>\<open>JSONDecodeError\<close>.
  What it does on the remaining texts is the parameter \<open>decode\<close> (\<open>None\<close> when it raises).
\<close>

definition json_value_start :: "char list" where
  "json_value_start = CHR 0x22 # ''{[-0123456789ntfNI''"

definition json_loads :: "(string \<Rightarrow> json option) \<Rightarrow> string \<Rightarrow> json option" where
  "json_loads decode s =
     (case dropWhile (\<lambda>c. c \<in> set [CHR '' '', CHR 0x09, CHR 0x0A, CHR 0x0D]) s of
        [] \<Rightarrow> None
      | c # _ \<Rightarrow> if c \<in> set json_value_start then decode s else None)"

fun find_char :: "char \<Rightarrow> string \<Rightarrow> nat option" where
  \<comment> \<open>\<^verbatim>\<open>s.find(c)\<close>, with \<open>None\<close> for -1\<close>
  "find_char c [] = None"
| "find_char c (x # xs) =
     (if x = c then Some 0 else map_option Suc (find_char c xs))"

definition rfind_char :: "char \<Rightarrow> string \<Rightarrow> nat option" where
  \<comment> \<open>\<^verbatim>\<open>s.rfind(c)\<close>, with \<open>None\<close> for -1\<close>
  "rfind_char c s =
     map_option (\<lambda>i. length s - 1 - i) (find_char c (rev s))"

definition code_fence :: string where
  "code_fence = [CHR 0x60, CHR 0x60, CHR 0x60]"

definition extract_json_str :: "string \<Rightarrow> string" where
  "extract_json_str response =
     (if contains (code_fence @ ''json'') response
      then strip (hd (split_str code_fence (split_str (code_fence @ ''json'') response ! 1)))
      else if contains ''{'' response
      then (case (find_char CHR ''{'' response, rfind_char CHR ''}'' response) of
              (Some start, Some last_brace) \<Rightarrow>
                take (last_brace + 1 - start) (drop start response)
            | _ \<Rightarrow> response)
      else response)"

definition dict_get :: "(string \<times> json) list \<Rightarrow> string \<Rightarrow> json \<Rightarrow> json" where
  \<comment> \<open>\<^verbatim>\<open>d.get(key, default)\<close>\<close>
  "dict_get kvs key dflt = (case map_of kvs key of Some v \<Rightarrow> v | None \<Rightarrow> dflt)"

fun py_iter :: "json \<Rightarrow> json list option" where
  \<comment> \<open>What a \<^verbatim>\<open>for\<close> loop runs over; \<open>None\<close> is the \<^verbatim>\<open>TypeError\<close> of a value that is not iterable.\<close>
  "py_iter (JArray xs) = Some xs"
| "py_iter (JString s) = Some (map (\<lambda>c. JString [c]) s)"
| "py_iter (JObject kvs) = Some (map (\<lambda>kv. JString (fst kv)) kvs)"
| "py_iter v = None"

fun json_truthy :: "json \<Rightarrow> bool" where
  "json_truthy JNull = False"
| "json_truthy (JBool b) = b"
| "json_truthy (JInt i) = (i \<noteq> 0)"
| "json_truthy (JFloat x) = (x \<noteq> 0)"
| "json_truthy (JString s) = (s \<noteq> [])"
| "json_truthy (JArray xs) = (xs \<noteq> [])"
| "json_truthy (JObject kvs) = (kvs \<noteq> [])"

fun digit_char :: "nat \<Rightarrow> char" where
  "digit_char n = char_of (48 + n)"

fun string_of_nat :: "nat \<Rightarrow> string" where
  "string_of_nat n =
     (if n < 10 then [digit_char n] else string_of_nat (n div 10) @ [digit_char (n mod 10)])"

text \<open>
  An f-string prints a string as it is; how it prints any other value (\<^verbatim>\<open>str\<close> of a
  number, a list, a dictionary) is the parameter \<open>py_str\<close>.
\<close>

definition format_value :: "(json \<Rightarrow> string) \<Rightarrow> json \<Rightarrow> string" where
  "format_value py_str v = (case v of JString s \<Rightarrow> s | _ \<Rightarrow> py_str v)"

definition grammar_improvement_of :: "(json \<Rightarrow> string) \<Rightarrow> json \<Rightarrow> improvement list" where
  "grammar_improvement_of py_str correction =
     (case correction of
        JObject c \<Rightarrow>
          (case (map_of c ''error'', map_of c ''correction'') of
             (Some e, Some co) \<Rightarrow>
               [\<lparr>improvement_type = ''grammar'', problem = e,
                 improvement_suggestion = JString (''Change to: '' @ format_value py_str co),
                 priority = ''high''\<rparr>]
           | _ \<Rightarrow> [])
      | _ \<Rightarrow> [])"

definition convert_to_improvements ::
  "(json \<Rightarrow> string) \<Rightarrow> (string \<times> json) list \<Rightarrow> improvement list option" where
  \<comment> \<open>\<open>None\<close> when one of the three loops raises.\<close>
  "convert_to_improvements py_str parsed =
     (case py_iter (dict_get parsed ''clarity_suggestions'' (JArray [])) of
        None \<Rightarrow> None
      | Some clarity \<Rightarrow>
     (case py_iter (dict_get parsed ''structure_suggestions'' (JArray [])) of
        None \<Rightarrow> None
      | Some structure \<Rightarrow>
     (case py_iter (dict_get parsed ''grammar_corrections'' (JArray [])) of
        None \<Rightarrow> None
      | Some corrections \<Rightarrow>
          Some (map (\<lambda>(idx, suggestion).
                       \<lparr>improvement_type = ''clarity'',
                        problem = JString (''Clarity issue '' @ string_of_nat (idx + 1)),
                        improvement_suggestion = suggestion, priority = ''medium''\<rparr>)
                  (enumerate 0 clarity)
                @ map (\<lambda>(idx, suggestion).
                         \<lparr>improvement_type = ''structure'',
                          problem = JString (''Structure issue '' @ string_of_nat (idx + 1)),
                          improvement_suggestion = suggestion, priority = ''medium''\<rparr>)
                    (enumerate 0 structure)
                @ concat (map (grammar_improvement_of py_str) corrections)))))"

definition create_rewrite_suggestions :: "(string \<times> json) list \<Rightarrow> rewrite list" where
  "create_rewrite_suggestions parsed =
     (let improved_version = dict_get parsed ''improved_version'' (JString [])
      in if json_truthy improved_version
         then [\<lparr>original = ''Original text'', suggested = improved_version,
                 reason = ''AI suggested comprehensive improvement''\<rparr>]
         else [])"

definition parse_ai_response ::
  "(string \<Rightarrow> json option) \<Rightarrow> (json \<Rightarrow> string) \<Rightarrow> string \<Rightarrow> suggestions" where
  \<comment> \<open>Both \<^verbatim>\<open>except\<close> clauses return the same call.\<close>
  "parse_ai_response decode py_str response =
     (let json_str = extract_json_str response
      in case json_loads decode json_str of
           None \<Rightarrow> generate_mock_suggestions [] empty_analysis ''general''
         | Some (JObject parsed) \<Rightarrow>
             (case convert_to_improvements py_str parsed of
                None \<Rightarrow> generate_mock_suggestions [] empty_analysis ''general''
              | Some improvements \<Rightarrow>
                  \<lparr>overall_feedback =
                     dict_get parsed ''overall_feedback''
                       (JString ''No overall feedback provided''),
                   specific_improvements = improvements,
                   rewrite_suggestions = create_rewrite_suggestions parsed,
                   format_specific_tips = get_format_tips ''general''\<rparr>)
         | Some _ \<Rightarrow> generate_mock_suggestions [] empty_analysis ''general'')"

text \<open>
  The external service is not part of the program: what the request gives is an input of
  the model, either a failure (any exception of the client) or the text of the reply. The
  prompt is only sent to the service; building it reads \<^verbatim>\<open>analysis['readability']\<close>, which
  raises inside the \<^verbatim>\<open>try\<close> when the entry is missing.
\<close>

datatype reply = Request_failed | Response string

datatype api_type = Gemini | OpenAI | Mock

definition generate_gemini_suggestions ::
  "(string \<Rightarrow> json option) \<Rightarrow> (json \<Rightarrow> string) \<Rightarrow> reply \<Rightarrow> string \<Rightarrow> analysis \<Rightarrow> string
     \<Rightarrow> suggestions" where
  "generate_gemini_suggestions decode py_str outcome text a writing_format =
     (if readability_of a = None then generate_mock_suggestions text a writing_format
      else case outcome of
             Request_failed \<Rightarrow> generate_mock_suggestions text a writing_format
           | Response response_text \<Rightarrow> parse_ai_response decode py_str response_text)"

definition generate_openai_suggestions ::
  "(string \<Rightarrow> json option) \<Rightarrow> (json \<Rightarrow> string) \<Rightarrow> reply \<Rightarrow> string \<Rightarrow> analysis \<Rightarrow> string
     \<Rightarrow> suggestions" where
  "generate_openai_suggestions decode py_str outcome text a writing_format =
     (if readability_of a = None then generate_mock_suggestions text a writing_format
      else case outcome of
             Request_failed \<Rightarrow> generate_mock_suggestions text a writing_format
           | Response response_text \<Rightarrow> parse_ai_response decode py_str response_text)"

definition generate_suggestions ::
  "api_type \<Rightarrow> (string \<Rightarrow> json option) \<Rightarrow> (json \<Rightarrow> string) \<Rightarrow> reply \<Rightarrow> string \<Rightarrow> analysis
     \<Rightarrow> string \<Rightarrow> suggestions" where
  "generate_suggestions api decode py_str outcome text a writing_format =
     (case api of
        Gemini \<Rightarrow> generate_gemini_suggestions decode py_str outcome text a writing_format
      | OpenAI \<Rightarrow> generate_openai_suggestions decode py_str outcome text a writing_format
      | Mock \<Rightarrow> generate_mock_suggestions text a writing_format)"

section \<open>Regular expressions\<close>

text \<open>
  The patterns of the format classifier are written down as syntax trees, and
  \<^verbatim>\<open>re.search\<close> and \<^verbatim>\<open>re.match\<close> are modelled for them: whether a match exists, which is
  all the classifier asks. A pattern may be anchored with \<^verbatim>\<open>^\<close> at its start and \<^verbatim>\<open>$\<close> at
  its end. On code points below 256, \<^verbatim>\<open>\s\<close> is \<open>isspace\<close>, \<^verbatim>\<open>\d\<close> the ten ASCII digits
  and \<^verbatim>\<open>\w\<close> the letters, digits and the underscore, with the Latin-1 letters and digits.
  Under \<^verbatim>\<open>re.IGNORECASE\<close> the character is lowered before it is compared: a literal
  matches when its lowered form is the same, a range when it holds the lowered character
  or its capital, a class when it holds the lowered character.
\<close>

datatype item = Chr char | Range char char | Space | Word | Digit

datatype regex =
    Never
  | Empty
  | Sym bool "item list"
  | Then regex regex
  | Or regex regex
  | Many regex

definition isdigit :: "char \<Rightarrow> bool" where
  "isdigit c = (48 \<le> (of_char c :: nat) \<and> (of_char c :: nat) \<le> 57)"

definition isword :: "char \<Rightarrow> bool" where
  "isword c =
     (let n = of_char c :: nat
      in (48 \<le> n \<and> n \<le> 57) \<or> (65 \<le> n \<and> n \<le> 90) \<or> n = 95 \<or> (97 \<le> n \<and> n \<le> 122)
         \<or> n \<in> set [170, 178, 179, 181, 185, 186, 188, 189, 190]
         \<or> (192 \<le> n \<and> n \<le> 214) \<or> (216 \<le> n \<and> n \<le> 246) \<or> (248 \<le> n \<and> n \<le> 255))"

definition upper_char :: "char \<Rightarrow> char" where
  "upper_char c =
     (let n = of_char c :: nat
      in if (97 \<le> n \<and> n \<le> 122) \<or> (224 \<le> n \<and> n \<le> 254 \<and> n \<noteq> 247)
         then char_of (n - 32) else c)"

definition in_range :: "char \<Rightarrow> char \<Rightarrow> char \<Rightarrow> bool" where
  "in_range lo hi c =
     ((of_char lo :: nat) \<le> of_char c \<and> (of_char c :: nat) \<le> of_char hi)"

fun item_matches :: "bool \<Rightarrow> item \<Rightarrow> char \<Rightarrow> bool" where
  "item_matches ignorecase (Chr p) c =
     (if ignorecase then lower_char c = lower_char p else c = p)"
| "item_matches ignorecase (Range lo hi) c =
     (if ignorecase
      then in_range lo hi (lower_char c) \<or> in_range lo hi (upper_char (lower_char c))
      else in_range lo hi c)"
| "item_matches ignorecase Space c = isspace (if ignorecase then lower_char c else c)"
| "item_matches ignorecase Word c = isword (if ignorecase then lower_char c else c)"
| "item_matches ignorecase Digit c = isdigit (if ignorecase then lower_char c else c)"

definition sym_matches :: "bool \<Rightarrow> bool \<Rightarrow> item list \<Rightarrow> char \<Rightarrow> bool" where
  \<comment> \<open>a character set \<^verbatim>\<open>[...]\<close>, or \<^verbatim>\<open>[^...]\<close> when \<open>negated\<close>\<close>
  "sym_matches ignorecase negated items c =
     (negated \<noteq> list_ex (\<lambda>i. item_matches ignorecase i c) items)"

fun nullable :: "regex \<Rightarrow> bool" where
  "nullable Never = False"
| "nullable Empty = True"
| "nullable (Sym negated items) = False"
| "nullable (Then r s) = (nullable r \<and> nullable s)"
| "nullable (Or r s) = (nullable r \<or> nullable s)"
| "nullable (Many r) = True"

fun then_of :: "regex \<Rightarrow> regex \<Rightarrow> regex" where
  "then_of Never s = Never"
| "then_of r Never = Never"
| "then_of Empty s = s"
| "then_of r s = Then r s"

fun or_of :: "regex \<Rightarrow> regex \<Rightarrow> regex" where
  "or_of Never s = s"
| "or_of r Never = r"
| "or_of r s = Or r s"

fun deriv :: "bool \<Rightarrow> char \<Rightarrow> regex \<Rightarrow> regex" where
  \<comment> \<open>what is left of the pattern after it has read \<open>c\<close>\<close>
  "deriv ic c Never = Never"
| "deriv ic c Empty = Never"
| "deriv ic c (Sym negated items) = (if sym_matches ic negated items c then Empty else Never)"
| "deriv ic c (Then r s) =
     or_of (then_of (deriv ic c r) s) (if nullable r then deriv ic c s else Never)"
| "deriv ic c (Or r s) = or_of (deriv ic c r) (deriv ic c s)"
| "deriv ic c (Many r) = then_of (deriv ic c r) (Many r)"

fun is_never :: "regex \<Rightarrow> bool" where
  "is_never Never = True"
| "is_never r = False"

fun match_prefix :: "bool \<Rightarrow> (string \<Rightarrow> bool) \<Rightarrow> regex \<Rightarrow> string \<Rightarrow> bool" where
  \<comment> \<open>some prefix of the string matches, and \<open>at_end\<close> accepts what follows it\<close>
  "match_prefix ic at_end r [] = (nullable r \<and> at_end [])"
| "match_prefix ic at_end r (c # cs) =
     (if nullable r \<and> at_end (c # cs) then True
      else if is_never (deriv ic c r) then False
      else match_prefix ic at_end (deriv ic c r) cs)"

record pattern =
  anchored_start :: bool
  body :: regex
  anchored_end :: bool

definition line_end :: "bool \<Rightarrow> bool \<Rightarrow> string \<Rightarrow> bool" where
  \<comment> \<open>\<^verbatim>\<open>$\<close>: the end of the text, or before a newline (under \<^verbatim>\<open>re.MULTILINE\<close>; without
      it, only before a newline that ends the text)\<close>
  "line_end multiline anchored rest =
     (if anchored
      then rest = [] \<or> (if multiline then hd rest = CHR 0x0A else rest = [CHR 0x0A])
      else True)"

definition match_at :: "bool \<Rightarrow> bool \<Rightarrow> pattern \<Rightarrow> bool \<Rightarrow> string \<Rightarrow> bool" where
  "match_at ic multiline p line_start s =
     ((if anchored_start p then line_start else True)
      \<and> match_prefix ic (line_end multiline (anchored_end p)) (body p) s)"

fun search_from :: "bool \<Rightarrow> bool \<Rightarrow> pattern \<Rightarrow> bool \<Rightarrow> string \<Rightarrow> bool" where
  \<comment> \<open>\<open>line_start\<close>: \<^verbatim>\<open>^\<close> matches here (the start of the text, or after a newline under
      \<^verbatim>\<open>re.MULTILINE\<close>)\<close>
  "search_from ic multiline p line_start [] = match_at ic multiline p line_start []"
| "search_from ic multiline p line_start (c # cs) =
     (if match_at ic multiline p line_start (c # cs) then True
      else search_from ic multiline p (multiline \<and> c = CHR 0x0A) cs)"

definition re_search :: "bool \<Rightarrow> bool \<Rightarrow> pattern \<Rightarrow> string \<Rightarrow> bool" where
  \<comment> \<open>\<^verbatim>\<open>re.search(p, text, flags)\<close> finds a match; the flags are \<^verbatim>\<open>re.IGNORECASE\<close> and
      \<^verbatim>\<open>re.MULTILINE\<close>\<close>
  "re_search ignorecase multiline p text = search_from ignorecase multiline p True text"

definition re_match :: "bool \<Rightarrow> bool \<Rightarrow> pattern \<Rightarrow> string \<Rightarrow> bool" where
  \<comment> \<open>\<^verbatim>\<open>re.match(p, text, flags)\<close> finds a match at the start of the text\<close>
  "re_match ignorecase multiline p text = match_at ignorecase multiline p True text"

definition lit :: "string \<Rightarrow> regex" where
  "lit s = foldr (\<lambda>c r. Then (Sym False [Chr c]) r) s Empty"

definition alts :: "string list \<Rightarrow> regex" where
  \<comment> \<open>\<^verbatim>\<open>(a|b|c)\<close>\<close>
  "alts ws = foldr (\<lambda>w r. Or (lit w) r) ws Never"

definition plus :: "regex \<Rightarrow> regex" where
  "plus r = Then r (Many r)"

definition opt :: "regex \<Rightarrow> regex" where
  "opt r = Or r Empty"

definition seq :: "regex list \<Rightarrow> regex" where
  "seq rs = foldr Then rs Empty"

definition unanchored :: "regex \<Rightarrow> pattern" where
  "unanchored r = \<lparr>anchored_start = False, body = r, anchored_end = False\<rparr>"

section \<open>Format classifier\<close>

record indicators =
  indicator_keywords :: "string list"
  indicator_patterns :: "pattern list"
  indicator_structural :: "string list"

text \<open>
  \<^verbatim>\<open>self.format_indicators\<close>, in the order of the dictionary. The patterns are, for email,
  \<^verbatim>\<open>^(hi|hello|dear)\s+\w+\<close> and \<^verbatim>\<open>(sincerely|regards|best),?\s*$\<close>; for essay,
  \<^verbatim>\<open>first(ly)?[\s,]\<close>, \<^verbatim>\<open>second(ly)?[\s,]\<close>, \<^verbatim>\<open>finally[\s,]\<close> and \<^verbatim>\<open>in conclusion\<close>; for
  report, \<^verbatim>\<open>\d+\.\d+\<close>, \<^verbatim>\<open>figure \d+\<close>, \<^verbatim>\<open>table \d+\<close> and \<^verbatim>\<open>section \d+\<close>; for creative,
  \<^verbatim>\<open>"[^"]+?"\<close> and \<^verbatim>\<open>[.!?]\s*[A-Z][^.!?]*[.!?]\<close>.
\<close>

definition sentence_end :: regex where
  "sentence_end = Sym False [Chr CHR ''.'', Chr CHR ''!'', Chr CHR ''?'']"

definition quoted :: pattern where
  \<comment> \<open>\<^verbatim>\<open>"[^"]+?"\<close>\<close>
  "quoted = unanchored (seq [lit [CHR 0x22], plus (Sym True [Chr CHR 0x22]), lit [CHR 0x22]])"

definition format_indicators :: "(string \<times> indicators) list" where
  "format_indicators =
     [(''email'',
       \<lparr>indicator_keywords = [''dear'', ''sincerely'', ''regards'', ''best'', ''hi'', ''hello'',
                    ''subject:'', ''from:'', ''to:''],
        indicator_patterns =
          [\<lparr>anchored_start = True,
            body = seq [alts [''hi'', ''hello'', ''dear''], plus (Sym False [Space]),
                        plus (Sym False [Word])],
            anchored_end = False\<rparr>,
           \<lparr>anchored_start = False,
            body = seq [alts [''sincerely'', ''regards'', ''best''], opt (lit '',''),
                        Many (Sym False [Space])],
            anchored_end = True\<rparr>],
        indicator_structural = [''short_paragraphs'', ''greeting'', ''closing'']\<rparr>),
      (''essay'',
       \<lparr>indicator_keywords = [''thesis'', ''conclusion'', ''furthermore'', ''however'', ''therefore'',
                    ''moreover'', ''consequently''],
        indicator_patterns =
          [unanchored (seq [lit ''first'', opt (lit ''ly''), Sym False [Space, Chr CHR '','']]),
           unanchored (seq [lit ''second'', opt (lit ''ly''), Sym False [Space, Chr CHR '','']]),
           unanchored (seq [lit ''finally'', Sym False [Space, Chr CHR '','']]),
           unanchored (lit ''in conclusion'')],
        indicator_structural = [''introduction'', ''body_paragraphs'', ''conclusion'']\<rparr>),
      (''report'',
       \<lparr>indicator_keywords = [''executive summary'', ''findings'', ''recommendations'', ''analysis'',
                    ''methodology'', ''results''],
        indicator_patterns =
          [unanchored (seq [plus (Sym False [Digit]), lit ''.'', plus (Sym False [Digit])]),
           unanchored (seq [lit ''figure '', plus (Sym False [Digit])]),
           unanchored (seq [lit ''table '', plus (Sym False [Digit])]),
           unanchored (seq [lit ''section '', plus (Sym False [Digit])])],
        indicator_structural = [''headings'', ''numbered_sections'', ''data_presentation'']\<rparr>),
      (''creative'',
       \<lparr>indicator_keywords = [''once upon'', ''suddenly'', ''meanwhile'', ''whispered'', ''shouted'',
                    ''felt'', ''remembered''],
        indicator_patterns =
          [quoted,
           unanchored (seq [sentence_end, Many (Sym False [Space]),
                            Sym False [Range CHR ''A'' CHR ''Z''],
                            Many (Sym True [Chr CHR ''.'', Chr CHR ''!'', Chr CHR ''?'']),
                            sentence_end])],
        indicator_structural = [''dialogue'', ''descriptive_language'', ''narrative_flow'']\<rparr>)]"

record rules =
  min_length :: "nat option"
  max_length :: "nat option"
  preferred_paragraph_length :: nat
  formality :: string
  required_elements :: "string list"

definition format_rules :: "(string \<times> rules) list" where
  "format_rules =
     [(''email'',
       \<lparr>min_length = None, max_length = Some 500, preferred_paragraph_length = 50,
        formality = ''semi-formal'',
        required_elements = [''greeting'', ''body'', ''closing'']\<rparr>),
      (''essay'',
       \<lparr>min_length = Some 300, max_length = None, preferred_paragraph_length = 150,
        formality = ''formal'',
        required_elements = [''introduction'', ''thesis'', ''body'', ''conclusion'']\<rparr>),
      (''report'',
       \<lparr>min_length = Some 500, max_length = None, preferred_paragraph_length = 100,
        formality = ''formal'',
        required_elements = [''executive_summary'', ''main_content'', ''conclusions'']\<rparr>),
      (''creative'',
       \<lparr>min_length = Some 200, max_length = None, preferred_paragraph_length = 100,
        formality = ''variable'',
        required_elements = [''narrative'', ''characters_or_imagery'']\<rparr>),
      (''general'',
       \<lparr>min_length = Some 50, max_length = None, preferred_paragraph_length = 100,
        formality = ''neutral'',
        required_elements = [''coherent_content'']\<rparr>)]"

definition greeting :: pattern where
  \<comment> \<open>\<^verbatim>\<open>^(dear|hi|hello)\s+\w+\<close>\<close>
  "greeting =
     \<lparr>anchored_start = True,
      body = seq [alts [''dear'', ''hi'', ''hello''], plus (Sym False [Space]),
                  plus (Sym False [Word])],
      anchored_end = False\<rparr>"

definition closing :: pattern where
  \<comment> \<open>\<^verbatim>\<open>(sincerely|regards|best|thanks),?\s*$\<close>\<close>
  "closing =
     \<lparr>anchored_start = False,
      body = seq [alts [''sincerely'', ''regards'', ''best'', ''thanks''], opt (lit '',''),
                  Many (Sym False [Space])],
      anchored_end = True\<rparr>"

definition heading :: pattern where
  \<comment> \<open>\<^verbatim>\<open>^[A-Z][^.!?]*:?\s*$\<close>\<close>
  "heading =
     \<lparr>anchored_start = True,
      body = seq [Sym False [Range CHR ''A'' CHR ''Z''],
                  Many (Sym True [Chr CHR ''.'', Chr CHR ''!'', Chr CHR ''?'']),
                  opt (lit '':''), Many (Sym False [Space])],
      anchored_end = True\<rparr>"

definition paragraphs_of :: "string \<Rightarrow> string list" where
  \<comment> \<open>\<^verbatim>\<open>text.split('\n\n')\<close>\<close>
  "paragraphs_of text = split_str [CHR 0x0A, CHR 0x0A] text"

definition avg_paragraph_words :: "string \<Rightarrow> rat" where
  \<comment> \<open>\<^verbatim>\<open>sum(len(p.split()) for p in paragraphs) / len(paragraphs) if paragraphs else 0\<close>\<close>
  "avg_paragraph_words text =
     (let paragraphs = paragraphs_of text
      in if paragraphs \<noteq> []
         then of_nat (sum_list (map (\<lambda>p. length (split_ws p)) paragraphs))
                / of_nat (length paragraphs)
         else 0)"

definition check_structure :: "string \<Rightarrow> string list \<Rightarrow> nat" where
  "check_structure text structural_elements =
     (let score = 0;
          score = (if ''short_paragraphs'' \<in> set structural_elements
                     \<and> avg_paragraph_words text < 75
                   then score + 1 else score);
          score = (if ''greeting'' \<in> set structural_elements \<and> re_match True False greeting text
                   then score + 2 else score);
          score = (if ''closing'' \<in> set structural_elements \<and> re_search True True closing text
                   then score + 2 else score);
          score = (if ''headings'' \<in> set structural_elements \<and> re_search False True heading text
                   then score + 2 else score);
          score = (if ''dialogue'' \<in> set structural_elements \<and> re_search False False quoted text
                   then score + 3 else score)
      in score)"

definition format_score :: "string \<Rightarrow> indicators \<Rightarrow> nat" where
  "format_score text ind =
     (let score = 0;
          score = foldl (\<lambda>score keyword.
                           if contains (lower keyword) (lower text) then score + 1 else score)
                    score (indicator_keywords ind);
          score = foldl (\<lambda>score p. if re_search True True p text then score + 2 else score)
                    score (indicator_patterns ind);
          score = score + check_structure text (indicator_structural ind)
      in score)"

fun max_by :: "('a \<Rightarrow> nat) \<Rightarrow> 'a \<Rightarrow> 'a list \<Rightarrow> 'a" where
  \<comment> \<open>\<^verbatim>\<open>max(items, key=key)\<close> on a list that is not empty: a later item replaces the best so
      far only when its key is greater\<close>
  "max_by key best [] = best"
| "max_by key best (x # xs) = max_by key (if key x > key best then x else best) xs"

definition format_scores :: "string \<Rightarrow> (string \<times> nat) list" where
  \<comment> \<open>the dictionary \<^verbatim>\<open>scores\<close> that the loop over \<^verbatim>\<open>self.format_indicators\<close> fills\<close>
  "format_scores text =
     map (\<lambda>(format_type, ind). (format_type, format_score text ind)) format_indicators"

definition classify :: "string \<Rightarrow> string option \<Rightarrow> string \<times> rat" where
  "classify text user_specified_format =
     (if truthy user_specified_format \<and> the user_specified_format \<in> set (map fst format_rules)
      then (the user_specified_format, 1)
      else
        let scores = format_scores text
        in case scores of
             [] \<Rightarrow> (''general'', 0.5)
           | s # ss \<Rightarrow>
               let best_format = max_by snd s ss;
                   total_score = sum_list (map snd scores);
                   confidence = (if total_score > 0
                                 then of_nat (snd best_format) / of_nat total_score else 0)
               in if confidence < 0.3 then (''general'', confidence)
                  else (fst best_format, confidence))"

definition element_checks :: "(string \<times> (string \<Rightarrow> bool)) list" where
  "element_checks =
     [(''greeting'', \<lambda>t. re_search True True greeting t),
      (''closing'', \<lambda>t. re_search True True closing t),
      (''introduction'', \<lambda>t. if paragraphs_of t \<noteq> []
                               then length (split_ws (hd (paragraphs_of t))) > 30 else False),
      (''thesis'', \<lambda>t. list_ex (\<lambda>phrase. contains phrase (lower t))
                          [''argue that'', ''believe that'', ''this essay will'',
                           ''this paper will'']),
      (''conclusion'', \<lambda>t. list_ex (\<lambda>phrase. contains phrase (lower t))
                              [''in conclusion'', ''to conclude'', ''therefore'', ''in summary'']),
      (''executive_summary'',
         \<lambda>t. re_search True False
                (unanchored (alts [''executive summary'', ''summary'', ''overview''])) t),
      (''methodology'',
         \<lambda>t. re_search True False
                (unanchored (alts [''methodology'', ''methods'', ''approach''])) t),
      (''findings'',
         \<lambda>t. re_search True False
                (unanchored (alts [''findings'', ''results'', ''outcomes''])) t),
      (''recommendations'',
         \<lambda>t. re_search True False
                (unanchored (alts [''recommend'', ''suggest'', ''propose''])) t)]"

definition check_required_elements :: "string \<Rightarrow> string list \<Rightarrow> string \<Rightarrow> string list" where
  \<comment> \<open>An element with no entry in \<open>element_checks\<close> falls to the \<^verbatim>\<open>elif\<close>, whose body is
      \<^verbatim>\<open>pass\<close>, or to nothing.\<close>
  "check_required_elements text required format_type =
     foldl (\<lambda>missing element.
              case map_of element_checks element of
                Some check \<Rightarrow> if \<not> check text then missing @ [element] else missing
              | None \<Rightarrow> missing)
       [] required"

definition classifier_tips :: "(string \<times> string list) list" where
  "classifier_tips =
     [(''email'', [''Use a clear, descriptive subject line'',
                   ''Start with a professional greeting'',
                   ''Keep paragraphs concise (2-3 sentences)'',
                   ''End with a specific call to action'',
                   ''Include a professional signature'']),
      (''essay'', [''Start with a compelling hook'',
                   ''Present a clear thesis statement'',
                   ''Use topic sentences for each paragraph'',
                   ''Provide evidence to support claims'',
                   ''End with a strong conclusion that reinforces your thesis'']),
      (''report'', [''Begin with an executive summary'',
                    ''Use clear section headings'',
                    ''Present data visually when possible'',
                    ''Keep language objective and factual'',
                    ''Include actionable recommendations'']),
      (''creative'', [''Engage readers from the first line'',
                      ''Show, don't tell - use sensory details'',
                      ''Develop distinct character voices'',
                      ''Maintain consistent point of view'',
                      ''Create tension and resolution'']),
      (''general'', [''Know your audience'',
                     ''Use clear, concise language'',
                     ''Organize ideas logically'',
                     ''Proofread for errors'',
                     ''Maintain consistent tone''])]"

definition get_format_specific_tips :: "string \<Rightarrow> string list" where
  "get_format_specific_tips format_type =
     (case map_of classifier_tips format_type of
        Some tips \<Rightarrow> tips
      | None \<Rightarrow> the (map_of classifier_tips ''general''))"

record recommendation =
  recommendation_type :: string
  recommendation_issue :: string
  recommendation_suggestion :: string

record format_result =
  result_format :: string
  result_rules :: rules
  recommendations :: "recommendation list"
  compliance_score :: rat
  result_tips :: "string list"

definition rules_for :: "string \<Rightarrow> rules" where
  \<comment> \<open>\<^verbatim>\<open>self.format_rules.get(format_type, self.format_rules['general'])\<close>\<close>
  "rules_for format_type =
     (case map_of format_rules format_type of
        Some r \<Rightarrow> r
      | None \<Rightarrow> the (map_of format_rules ''general''))"

definition apply_format_rules ::
  "(rat \<Rightarrow> bool) \<Rightarrow> string \<Rightarrow> string \<Rightarrow> analysis \<Rightarrow> format_result option" where
  \<comment> \<open>\<open>None\<close> is the \<^verbatim>\<open>KeyError\<close> of an analysis without \<^verbatim>\<open>'basic_stats'\<close>. The state of the
      function is the pair of \<^verbatim>\<open>recommendations\<close> and \<^verbatim>\<open>compliance_score\<close>.\<close>
  "apply_format_rules up text format_type a =
     (let rules = rules_for format_type;
          st = ([], 1 :: rat)
      in case basic_stats_of a of
           None \<Rightarrow> None
         | Some stats \<Rightarrow>
             let wc = word_count stats;
                 st = (case min_length rules of
                         Some m \<Rightarrow>
                           if wc < m
                           then (fst st @ [\<lparr>recommendation_type = ''length'',
                                   recommendation_issue = ''Text is too short for '' @ format_type,
                                   recommendation_suggestion =
                                     ''Expand to at least '' @ string_of_nat m @ '' words''\<rparr>],
                                 snd st * 0.8)
                           else st
                       | None \<Rightarrow> st);
                 st = (case max_length rules of
                         Some m \<Rightarrow>
                           if wc > m
                           then (fst st @ [\<lparr>recommendation_type = ''length'',
                                   recommendation_issue = ''Text is too long for '' @ format_type,
                                   recommendation_suggestion =
                                     ''Reduce to maximum '' @ string_of_nat m @ '' words''\<rparr>],
                                 snd st * 0.9)
                           else st
                       | None \<Rightarrow> st);
                 avg_paragraph_length = avg_paragraph_words text;
                 st = (if avg_paragraph_length
                            > of_nat (preferred_paragraph_length rules) * 1.5
                       then (fst st @ [\<lparr>recommendation_type = ''structure'',
                               recommendation_issue = ''Paragraphs are too long'',
                               recommendation_suggestion =
                                 ''Break into shorter paragraphs (~''
                                 @ string_of_nat (preferred_paragraph_length rules)
                                 @ '' words)''\<rparr>],
                             snd st * 0.9)
                       else st);
                 missing_elements =
                   check_required_elements text (required_elements rules) format_type;
                 st = foldl (\<lambda>st element.
                               (fst st @ [\<lparr>recommendation_type = ''missing_element'',
                                  recommendation_issue = ''Missing '' @ element,
                                  recommendation_suggestion =
                                    ''Add a clear '' @ element @ '' section''\<rparr>],
                                snd st * 0.85))
                        st missing_elements
             in Some \<lparr>result_format = format_type, result_rules = rules,
                      recommendations = fst st,
                      compliance_score = round2 up (snd st),
                      result_tips = get_format_specific_tips format_type\<rparr>)"

text \<open>
  The compliance score in the words of the specification: one factor for each kind of
  violation, and one factor of 0.85 for each missing element.
\<close>

definition compliance_of :: "(rat \<Rightarrow> bool) \<Rightarrow> bool \<Rightarrow> bool \<Rightarrow> bool \<Rightarrow> nat \<Rightarrow> rat" where
  "compliance_of up too_short too_long long_paragraphs missing =
     round2 up (1 * (if too_short then 0.8 else 1) * (if too_long then 0.9 else 1)
                * (if long_paragraphs then 0.9 else 1) * 0.85 ^ missing)"

text \<open>The three violations that \<open>apply_format_rules\<close> tests before the required elements.\<close>

definition too_short :: "string \<Rightarrow> nat \<Rightarrow> bool" where
  "too_short format_type wc =
     (case min_length (rules_for format_type) of Some m \<Rightarrow> wc < m | None \<Rightarrow> False)"

definition too_long :: "string \<Rightarrow> nat \<Rightarrow> bool" where
  "too_long format_type wc =
     (case max_length (rules_for format_type) of Some m \<Rightarrow> wc > m | None \<Rightarrow> False)"

definition long_paragraphs :: "string \<Rightarrow> string \<Rightarrow> bool" where
  \<comment> \<open>the words of all paragraphs, over the number of paragraphs, against 1.5 times the
      preferred length\<close>
  "long_paragraphs format_type text =
     (of_nat (sum_list (map (\<lambda>p. length (split_ws p)) (split_str [CHR 0x0A, CHR 0x0A] text)))
        / of_nat (length (split_str [CHR 0x0A, CHR 0x0A] text))
      > (of_nat (preferred_paragraph_length (rules_for format_type)) * 1.5 :: rat))"

section \<open>Results about the text analyzer\<close>

text \<open>
  C1, as amended. The readability entry is a function of the tokenizer's word count and
  sentence count alone: with a zero count it is score 0 and level "Unknown"; otherwise the
  score is 206.835 - 1.015 * (words / sentences) - 84.6 * 1.5 rounded to two decimals, and
  the level is the band of the unrounded value. Two texts with the same counts get the
  same entry.
\<close>

theorem readability_determined_by_counts:
  "calculate_readability up sentences words
     = readability_of_counts up (length words) (length sentences)
   \<and> (length words' = length words \<and> length sentences' = length sentences
        \<longrightarrow> calculate_readability up sentences' words'
              = calculate_readability up sentences words)"
proof -
  have eq: "calculate_readability up ss ws = readability_of_counts up (length ws) (length ss)"
    for ss ws :: "string list"
    unfolding calculate_readability_def readability_of_counts_def flesch_of_counts_def Let_def
    by (cases ss; cases ws) simp_all
  show ?thesis
    by (simp add: eq)
qed

theorem readability_determined_by_counts_witness:
  "calculate_readability ties_to_even [''Go.'', ''Stop''] [''Go'', ''.'', ''Stop'']
     = \<lparr>score = 78.41, level = ''Fairly Easy''\<rparr>
   \<and> calculate_readability ties_to_even [''No.'', ''Yes''] [''No'', ''.'', ''Yes'']
     = calculate_readability ties_to_even [''Go.'', ''Stop''] [''Go'', ''.'', ''Stop'']"
proof -
  have "readability_of_counts ties_to_even (length [''Go'', ''.'', ''Stop''])
          (length [''Go.'', ''Stop'']) = \<lparr>score = 78.41, level = ''Fairly Easy''\<rparr>"
    by code_simp
  then show ?thesis
    using readability_determined_by_counts
      [of ties_to_even "[''Go.'', ''Stop'']" "[''Go'', ''.'', ''Stop'']"
          "[''No'', ''.'', ''Yes'']" "[''No.'', ''Yes'']"]
    by simp
qed

text \<open>
  The claim as written gives the unrounded formula as the score. For the text "Go. Stop"
  (two sentences, three tokens) the formula is 78.4125 and the returned score 78.41.
\<close>

theorem readability_score_unrounded_counterexample:
  "score (calculate_readability ties_to_even [''Go.'', ''Stop''] [''Go'', ''.'', ''Stop''])
     \<noteq> 206.835 - 1.015 * (3 / 2) - 84.6 * 1.5"
  by code_simp

section \<open>Facts about rounding\<close>

lemma round_to_int_of_int: "round_to_int up (of_int k) = k"
  by (simp add: round_to_int_def Let_def)

lemma round_to_int_mono: "x \<le> y \<Longrightarrow> round_to_int up x \<le> round_to_int up y"
proof -
  assume xy: "x \<le> y"
  have fl: "\<lfloor>x\<rfloor> \<le> \<lfloor>y\<rfloor>" using xy by (rule floor_mono)
  have lo: "of_int \<lfloor>x\<rfloor> \<le> round_to_int up x" "round_to_int up x \<le> \<lfloor>x\<rfloor> + 1" for x
    by (simp_all add: round_to_int_def Let_def)
  show ?thesis
  proof (cases "\<lfloor>x\<rfloor> = \<lfloor>y\<rfloor>")
    case True
    then have "x - of_int \<lfloor>x\<rfloor> \<le> y - of_int \<lfloor>y\<rfloor>" using xy by simp
    then show ?thesis
      using True xy by (cases "x = y") (auto simp add: round_to_int_def Let_def)
  next
    case False
    then have "\<lfloor>x\<rfloor> + 1 \<le> \<lfloor>y\<rfloor>" using fl by simp
    then show ?thesis using lo(2)[of x] lo(1)[of y] by simp
  qed
qed

lemma round2_mono: "x \<le> y \<Longrightarrow> round2 up x \<le> round2 up y"
  unfolding round2_def
  by (simp add: round_to_int_mono divide_right_mono)

lemma round2_two_decimals: "two_decimals x \<Longrightarrow> round2 up x = x"
proof -
  assume "two_decimals x"
  then have e: "x * 100 = of_int \<lfloor>x * 100\<rfloor>"
    unfolding two_decimals_def by (rule sym)
  have "round_to_int up (x * 100) = \<lfloor>x * 100\<rfloor>"
    by (subst e) (simp only: round_to_int_of_int)
  then have "round2 up x = of_int \<lfloor>x * 100\<rfloor> / 100" by (simp add: round2_def)
  also have "\<dots> = x" using e by simp
  finally show ?thesis .
qed

lemma two_decimals_round2: "two_decimals (round2 up x)"
  by (simp add: two_decimals_def round2_def)

lemma two_decimals_diff: "two_decimals a \<Longrightarrow> two_decimals b \<Longrightarrow> two_decimals (b - a)"
proof -
  assume a: "two_decimals a" and b: "two_decimals b"
  have ea: "a * 100 = of_int \<lfloor>a * 100\<rfloor>"
    using a unfolding two_decimals_def by (rule sym)
  have eb: "b * 100 = of_int \<lfloor>b * 100\<rfloor>"
    using b unfolding two_decimals_def by (rule sym)
  have "(b - a) * 100 = b * 100 - a * 100" by (simp add: algebra_simps)
  also have "\<dots> = of_int (\<lfloor>b * 100\<rfloor> - \<lfloor>a * 100\<rfloor>)"
    by (subst ea, subst eb) simp
  finally have "(b - a) * 100 = of_int (\<lfloor>b * 100\<rfloor> - \<lfloor>a * 100\<rfloor>)" .
  then show ?thesis
    unfolding two_decimals_def by (metis floor_of_int)
qed

lemma round2_zero: "round2 up 0 = 0"
  by (simp add: round2_def round_to_int_def)

lemma readability_score_two_decimals:
  "two_decimals (score (calculate_readability up sentences words))"
  by (simp add: calculate_readability_def Let_def two_decimals_round2)
     (simp add: two_decimals_def)

section \<open>Results about the progress tracker\<close>

lemma recent_first:
  "2 \<le> length subs \<Longrightarrow>
   hd (map f (if length subs \<ge> 5 then drop (length subs - 5) subs else subs))
     = f (subs ! (length subs - min 5 (length subs)))"
proof -
  assume n: "2 \<le> length subs"
  then have ne: "subs \<noteq> []" by auto
  show ?thesis
  proof (cases "5 \<le> length subs")
    case True
    then have "drop (length subs - 5) subs \<noteq> []" by simp
    then show ?thesis using True by (simp add: hd_map hd_drop_conv_nth min_def)
  next
    case False
    then show ?thesis using ne by (simp add: hd_map hd_conv_nth min_def)
  qed
qed

lemma recent_last:
  "2 \<le> length subs \<Longrightarrow>
   last (map f (if length subs \<ge> 5 then drop (length subs - 5) subs else subs))
     = f (last subs)"
proof -
  assume n: "2 \<le> length subs"
  then have ne: "subs \<noteq> []" by auto
  show ?thesis
  proof (cases "5 \<le> length subs")
    case True
    then have "drop (length subs - 5) subs \<noteq> []" by simp
    then show ?thesis using True by (simp add: last_map)
  next
    case False
    then show ?thesis using ne by (simp add: last_map)
  qed
qed

lemma progress_short: "length subs < 2 \<Longrightarrow> calculate_progress up subs = Insufficient_data"
  by (simp add: calculate_progress_def)

lemma progress_tracked:
  assumes "2 \<le> length subs"
  shows "calculate_progress up subs =
     Tracked (length subs)
       (round2 up (readability_score (metrics (last subs)) - readability_score (metrics (hd subs))))
       (int (style_issues_count (metrics (hd subs))) - int (style_issues_count (metrics (last subs))))
       (int (grammar_issues_count (metrics (hd subs))) - int (grammar_issues_count (metrics (last subs))))
       (if readability_score (metrics (last subs))
             > readability_score (metrics (subs ! (length subs - min 5 (length subs))))
        then ''improving'' else ''declining'')
       (calculate_days_active subs) (calculate_consistency_score subs)"
proof -
  have n: "\<not> length subs < 2" using assms by simp
  show ?thesis
    unfolding calculate_progress_def Let_def
    by (simp only: n if_False recent_first[OF assms] recent_last[OF assms])
qed

lemma sample_submissions_tracked:
  "snd (track_submission up Map.empty time1 later ''test_user_123'' analysis1 ())
       ''test_user_123''
     = Some \<lparr>user_id = ''test_user_123'', created_at = later, submissions = [submission1],
             progress = Insufficient_data\<rparr>"
  by (simp add: track_submission_def extract_metrics_def analysis1_def submission1_def
      load_user_data_def save_user_data_def calculate_progress_def Let_def)

lemma sample_submissions_tracked2:
  "store ''test_user_123''
      = Some \<lparr>user_id = ''test_user_123'', created_at = created, submissions = [submission1],
             progress = Insufficient_data\<rparr> \<Longrightarrow>
   submissions (the (snd (track_submission up store time2 later ''test_user_123'' analysis2 ())
       ''test_user_123'')) = [submission1, submission2]"
  by (simp add: track_submission_def extract_metrics_def analysis2_def submission2_def
      load_user_data_def save_user_data_def Let_def)

text \<open>
  C2, as amended. A history of fewer than two submissions gives the progress
  \<open>insufficient_data\<close>. A history of at least two gives \<open>tracked\<close>, with
  \<open>readability_change\<close> the last submission's readability score minus the first's,
  rounded to two decimals, and \<open>readability_trend\<close> "improving" exactly when the last
  score is strictly greater than the score that opens the window of the five most recent
  submissions (the whole history when it has fewer than five), "declining" otherwise, ties
  included. When the last score is greater than the first, \<open>readability_change\<close> is not
  negative, and it is positive when both scores are two-decimal numbers, as the scores of
  the analyzer are.
\<close>

theorem progress_of_history:
  "(length subs < 2 \<longrightarrow> calculate_progress up subs = Insufficient_data)
   \<and> (2 \<le> length subs \<longrightarrow>
        status (calculate_progress up subs) = ''tracked''
        \<and> readability_change (calculate_progress up subs)
            = round2 up (readability_score (metrics (last subs))
                          - readability_score (metrics (hd subs)))
        \<and> (readability_trend (calculate_progress up subs) = ''improving''
             \<longleftrightarrow> readability_score (metrics (last subs))
                   > readability_score (metrics (subs ! (length subs - min 5 (length subs)))))
        \<and> (readability_trend (calculate_progress up subs) = ''declining''
             \<longleftrightarrow> readability_score (metrics (last subs))
                   \<le> readability_score (metrics (subs ! (length subs - min 5 (length subs)))))
        \<and> (readability_score (metrics (hd subs)) < readability_score (metrics (last subs))
             \<longrightarrow> 0 \<le> readability_change (calculate_progress up subs))
        \<and> (readability_score (metrics (hd subs)) < readability_score (metrics (last subs))
             \<and> two_decimals (readability_score (metrics (hd subs)))
             \<and> two_decimals (readability_score (metrics (last subs)))
             \<longrightarrow> 0 < readability_change (calculate_progress up subs)))"
proof (intro conjI impI)
  assume "length subs < 2"
  then show "calculate_progress up subs = Insufficient_data" by (rule progress_short)
next
  assume n: "2 \<le> length subs"
  note t = progress_tracked[OF n, of up]
  show "status (calculate_progress up subs) = ''tracked''" by (simp add: t)
  show "readability_change (calculate_progress up subs)
            = round2 up (readability_score (metrics (last subs))
                          - readability_score (metrics (hd subs)))" by (simp add: t)
  show "(readability_trend (calculate_progress up subs) = ''improving'')
             = (readability_score (metrics (last subs))
                   > readability_score (metrics (subs ! (length subs - min 5 (length subs)))))"
    by (simp add: t)
  show "(readability_trend (calculate_progress up subs) = ''declining'')
             = (readability_score (metrics (last subs))
                   \<le> readability_score (metrics (subs ! (length subs - min 5 (length subs)))))"
    by (simp add: t not_less)
next
  assume n: "2 \<le> length subs"
    and lt: "readability_score (metrics (hd subs)) < readability_score (metrics (last subs))"
  have "round2 up 0 \<le> round2 up (readability_score (metrics (last subs))
                          - readability_score (metrics (hd subs)))"
    by (rule round2_mono) (use lt in simp)
  then show "0 \<le> readability_change (calculate_progress up subs)"
    by (simp add: progress_tracked[OF n] round2_zero)
next
  assume n: "2 \<le> length subs"
    and h: "readability_score (metrics (hd subs)) < readability_score (metrics (last subs))
             \<and> two_decimals (readability_score (metrics (hd subs)))
             \<and> two_decimals (readability_score (metrics (last subs)))"
  then have "two_decimals (readability_score (metrics (last subs))
                          - readability_score (metrics (hd subs)))"
    by (simp add: two_decimals_diff)
  then have "round2 up (readability_score (metrics (last subs))
                          - readability_score (metrics (hd subs)))
         = readability_score (metrics (last subs)) - readability_score (metrics (hd subs))"
    by (rule round2_two_decimals)
  then show "0 < readability_change (calculate_progress up subs)"
    using h by (simp add: progress_tracked[OF n])
qed

theorem progress_of_history_witness:
  "calculate_progress ties_to_even ([] :: unit submission list) = Insufficient_data
   \<and> calculate_progress ties_to_even [submission1] = Insufficient_data
   \<and> readability_change (calculate_progress ties_to_even [submission1, submission2]) = 10
   \<and> readability_trend (calculate_progress ties_to_even [submission1, submission2])
        = ''improving''
   \<and> readability_trend (calculate_progress ties_to_even [submission2, submission1])
        = ''declining''
   \<and> readability_trend (calculate_progress ties_to_even [submission1, submission1])
        = ''declining''"
proof -
  have r: "round2 ties_to_even 10 = 10" by code_simp
  show ?thesis
    using progress_of_history [of "[] :: unit submission list" ties_to_even]
      progress_of_history [of "[submission1]" ties_to_even]
      progress_of_history [of "[submission1, submission2]" ties_to_even]
      progress_of_history [of "[submission2, submission1]" ties_to_even]
      progress_of_history [of "[submission1, submission1]" ties_to_even]
    by (simp add: submission1_def submission2_def r)
qed

text \<open>
  The claim as written promises a positive \<open>readability_change\<close> whenever the later score
  is greater. A gain below half a hundredth is rounded away: from 60 to 60.004 the change
  is \<^verbatim>\<open>round(0.004, 2)\<close>, which is 0.
\<close>

theorem progress_small_gain_counterexample:
  "readability_score (metrics (submission1\<lparr>metrics := metrics submission1\<lparr>readability_score := 60\<rparr>\<rparr>))
     < readability_score (metrics (submission2\<lparr>metrics := metrics submission2\<lparr>readability_score := 60.004\<rparr>\<rparr>))
   \<and> \<not> 0 < readability_change (calculate_progress ties_to_even
        [submission1\<lparr>metrics := metrics submission1\<lparr>readability_score := 60\<rparr>\<rparr>,
         submission2\<lparr>metrics := metrics submission2\<lparr>readability_score := 60.004\<rparr>\<rparr>])"
proof -
  have r: "\<not> 0 < round2 ties_to_even (60.004 - 60)" by code_simp
  have "readability_change (calculate_progress ties_to_even
        [submission1\<lparr>metrics := metrics submission1\<lparr>readability_score := 60\<rparr>\<rparr>,
         submission2\<lparr>metrics := metrics submission2\<lparr>readability_score := 60.004\<rparr>\<rparr>])
      = round2 ties_to_even (60.004 - 60)"
    by (simp add: progress_tracked)
  with r show ?thesis by simp
qed

lemma drop_last_three:
  assumes "3 \<le> length xs"
  shows "drop (length xs - 3) xs
           = [xs ! (length xs - 3), xs ! (length xs - 2), xs ! (length xs - 1)]"
proof (rule nth_equalityI)
  show "length (drop (length xs - 3) xs)
          = length [xs ! (length xs - 3), xs ! (length xs - 2), xs ! (length xs - 1)]"
    using assms by simp
next
  fix i assume "i < length (drop (length xs - 3) xs)"
  then have "i < 3" using assms by simp
  then consider "i = 0" | "i = 1" | "i = 2" by linarith
  then show "drop (length xs - 3) xs ! i
          = [xs ! (length xs - 3), xs ! (length xs - 2), xs ! (length xs - 1)] ! i"
  proof cases
    case 1 then show ?thesis using assms by simp
  next
    case 2
    have "length xs - 3 + 1 = length xs - 2" using assms by simp
    then show ?thesis using 2 assms by simp
  next
    case 3
    have "length xs - 3 + 2 = length xs - 1" using assms by simp
    then show ?thesis using 3 assms by simp
  qed
qed

lemma pairwise_increasing_three:
  "list_all (\<lambda>i. [x, y, z] ! i > [x, y, z] ! (i - 1)) [1..<3] \<longleftrightarrow> x < y \<and> y < (z :: rat)"
proof -
  have u: "[1..<3] = [1, 2 :: nat]" by (simp add: upt_rec)
  show ?thesis unfolding u by simp
qed

lemma rising_recent:
  assumes "3 \<le> length subs"
  shows "list_all (\<lambda>i. map f (drop (length subs - 3) subs) ! i
                        > map f (drop (length subs - 3) subs) ! (i - 1)) [1..<3]
         \<longleftrightarrow> (f (subs ! (length subs - 3)) :: rat) < f (subs ! (length subs - 2))
             \<and> f (subs ! (length subs - 2)) < f (subs ! (length subs - 1))"
  unfolding drop_last_three[OF assms] list.map
  by (rule pairwise_increasing_three)

lemma calculate_achievements_eq:
  "calculate_achievements subs =
     (if 5 \<le> length subs
      then [\<lparr>name = ''Getting Started'',
              description = ''Completed 5 writing submissions'',
              earned_at = timestamp (subs ! 4)\<rparr>] else [])
     @ (if 10 \<le> length subs
        then [\<lparr>name = ''Consistent Writer'',
                description = ''Completed 10 writing submissions'',
                earned_at = timestamp (subs ! 9)\<rparr>] else [])
     @ (if (3 \<le> length subs
         \<and> readability_score (metrics (subs ! (length subs - 3)))
              < readability_score (metrics (subs ! (length subs - 2)))
         \<and> readability_score (metrics (subs ! (length subs - 2)))
              < readability_score (metrics (subs ! (length subs - 1))))
        then [\<lparr>name = ''Rising Star'',
                description = ''Improved readability for 3 consecutive submissions'',
                earned_at = timestamp (last subs)\<rparr>] else [])"
proof (cases "3 \<le> length subs")
  case True
  show ?thesis
    unfolding calculate_achievements_def Let_def
    by (simp only: True rising_recent[OF True] if_True simp_thms)
next
  case False
  then show ?thesis
    unfolding calculate_achievements_def Let_def
    by simp
qed

text \<open>
  C8. The achievements computed from a history contain "Getting Started" if and only if
  the history has at least five submissions, and its \<open>earned_at\<close> is the timestamp of the
  fifth; "Consistent Writer" if and only if it has at least ten; "Rising Star" if and only
  if it has at least three and the readability scores of the three most recent ones are
  strictly increasing from each to the next.
\<close>

theorem achievements_of_history:
  "((\<exists>a \<in> set (calculate_achievements subs). name a = ''Getting Started'')
      \<longleftrightarrow> 5 \<le> length subs)
   \<and> (\<forall>a \<in> set (calculate_achievements subs).
         name a = ''Getting Started'' \<longrightarrow> earned_at a = timestamp (subs ! 4))
   \<and> ((\<exists>a \<in> set (calculate_achievements subs). name a = ''Consistent Writer'')
      \<longleftrightarrow> 10 \<le> length subs)
   \<and> ((\<exists>a \<in> set (calculate_achievements subs). name a = ''Rising Star'')
      \<longleftrightarrow> 3 \<le> length subs
          \<and> readability_score (metrics (subs ! (length subs - 3)))
               < readability_score (metrics (subs ! (length subs - 2)))
          \<and> readability_score (metrics (subs ! (length subs - 2)))
               < readability_score (metrics (subs ! (length subs - 1))))"
proof (intro conjI)
  show "(\<exists>a \<in> set (calculate_achievements subs). name a = ''Getting Started'')
      \<longleftrightarrow> 5 \<le> length subs"
    by (auto simp add: calculate_achievements_eq)
  show "\<forall>a \<in> set (calculate_achievements subs).
         name a = ''Getting Started'' \<longrightarrow> earned_at a = timestamp (subs ! 4)"
    by (auto simp add: calculate_achievements_eq)
  show "(\<exists>a \<in> set (calculate_achievements subs). name a = ''Consistent Writer'')
      \<longleftrightarrow> 10 \<le> length subs"
    by (auto simp add: calculate_achievements_eq)
  show "(\<exists>a \<in> set (calculate_achievements subs). name a = ''Rising Star'')
      \<longleftrightarrow> 3 \<le> length subs
          \<and> readability_score (metrics (subs ! (length subs - 3)))
               < readability_score (metrics (subs ! (length subs - 2)))
          \<and> readability_score (metrics (subs ! (length subs - 2)))
               < readability_score (metrics (subs ! (length subs - 1)))"
    by (auto simp add: calculate_achievements_eq)
qed

theorem achievements_of_history_witness:
  "(\<exists>a \<in> set (calculate_achievements (replicate 4 submission1 @ [submission2])).
       name a = ''Getting Started'' \<and> earned_at a = time2)
   \<and> \<not> (\<exists>a \<in> set (calculate_achievements (replicate 4 submission1)).
       name a = ''Getting Started'')
   \<and> \<not> (\<exists>a \<in> set (calculate_achievements (replicate 4 submission1 @ [submission2])).
       name a = ''Consistent Writer'')
   \<and> \<not> (\<exists>a \<in> set (calculate_achievements (replicate 4 submission1 @ [submission2])).
       name a = ''Rising Star'')
   \<and> (\<exists>a \<in> set (calculate_achievements
         [submission1, submission2,
          submission2\<lparr>metrics := (metrics submission2)\<lparr>readability_score := 65\<rparr>\<rparr>]).
       name a = ''Rising Star'')"
  using achievements_of_history [of "replicate 4 submission1 @ [submission2]"]
    achievements_of_history [of "replicate 4 submission1"]
    achievements_of_history
      [of "[submission1, submission2,
            submission2\<lparr>metrics := (metrics submission2)\<lparr>readability_score := 65\<rparr>\<rparr>]"]
  by (auto simp add: submission1_def submission2_def nth_append)

text \<open>
  C9, as amended. For a user identifier with no persisted record, \<open>get_user_report\<close>
  returns \<open>no_data\<close> and leaves the storage as it found it: no record of the user exists in
  storage after the request. The record with the user's identifier, the time of the
  request as \<open>created_at\<close> and no submissions is built in memory by \<open>load_user_data\<close> and
  dropped when the report returns.
\<close>

theorem report_for_unseen_user:
  "store uid = None \<Longrightarrow>
     fst (get_user_report store now uid) = No_data
     \<and> snd (get_user_report store now uid) = store
     \<and> snd (get_user_report store now uid) uid = None
     \<and> load_user_data store now uid
         = \<lparr>user_id = uid, created_at = now, submissions = [], progress = New_user\<rparr>"
  by (simp add: get_user_report_def load_user_data_def)

theorem report_for_unseen_user_witness:
  "fst (get_user_report (Map.empty :: unit storage) \<lparr>day = 739558, microsecond_of_day = 0\<rparr>
         ''alice'') = No_data
   \<and> snd (get_user_report (Map.empty :: unit storage) \<lparr>day = 739558, microsecond_of_day = 0\<rparr>
         ''alice'') = Map.empty"
  using report_for_unseen_user
    [of "Map.empty :: unit storage" "''alice''" "\<lparr>day = 739558, microsecond_of_day = 0\<rparr>"]
  by simp

text \<open>
  The claim as written has the record exist in storage after the first report request.
  After a report for "alice" on empty storage there is still no record for "alice".
\<close>

theorem report_creates_no_record_counterexample:
  "snd (get_user_report (Map.empty :: unit storage) \<lparr>day = 739558, microsecond_of_day = 0\<rparr>
         ''alice'') ''alice'' = None"
  by (simp add: get_user_report_def load_user_data_def)

text \<open>A record reaches the storage through \<open>track_submission\<close>, which saves it.\<close>

lemma track_submission_persists:
  "extract_metrics a = Some m \<Longrightarrow>
     snd (track_submission up store now later uid a sg) uid \<noteq> None"
  by (simp add: track_submission_def save_user_data_def Let_def)

section \<open>Results about the input handler\<close>

lemma strip_empty_iff: "strip s = [] \<longleftrightarrow> (\<forall>c \<in> set s. isspace c)"
proof
  assume "strip s = []"
  then have "dropWhile isspace (rev (dropWhile isspace s)) = []" by (simp add: strip_def)
  then have "\<forall>c \<in> set (rev (dropWhile isspace s)). isspace c"
    by (simp add: dropWhile_eq_Nil_conv)
  then have a: "\<forall>c \<in> set (dropWhile isspace s). isspace c" by simp
  have "dropWhile isspace s = []"
  proof (cases "dropWhile isspace s")
    case Nil then show ?thesis .
  next
    case (Cons x xs)
    then have "\<not> isspace x" using hd_dropWhile[of isspace s] by auto
    moreover have "isspace x" using a Cons by simp
    ultimately show ?thesis by simp
  qed
  then show "\<forall>c \<in> set s. isspace c" by (simp add: dropWhile_eq_Nil_conv)
next
  assume "\<forall>c \<in> set s. isspace c"
  then have d: "dropWhile isspace s = []" by (induction s) auto
  show "strip s = []" unfolding strip_def d by simp
qed

lemma validate_input_cases:
  "validate_input text fmt =
     (if strip text = [] then Invalid ''Text cannot be empty''
      else if length (strip text) < 10 then Invalid ''Text too short for meaningful analysis''
      else Valid (strip text)
             (if truthy fmt \<and> the fmt \<in> set valid_formats then the fmt else ''general'')
             (length (split_ws text)) (length text))"
proof -
  have "text = [] \<Longrightarrow> strip text = []" by (simp add: strip_def)
  then show ?thesis
    by (cases fmt) (auto simp add: validate_input_def Let_def)
qed

text \<open>
  C10. \<open>validate_input\<close> rejects a text exactly when its stripped form has fewer than ten
  characters: with "Text cannot be empty" when the stripped form is empty (the text is
  empty or all whitespace), with "Text too short for meaningful analysis" when it has one
  to nine characters. The pipeline then returns the error: none of the later stages runs
  and the state of the services is unchanged. A text whose stripped form has at least ten
  characters is valid, and its stripped form is what the later stages receive.
\<close>

theorem validate_input_gate:
  "(length (strip text) < 10 \<longleftrightarrow> (\<exists>e. validate_input text fmt = Invalid e))
   \<and> ((\<forall>c \<in> set text. isspace c) \<longleftrightarrow> strip text = [])
   \<and> (strip text = [] \<longrightarrow> validate_input text fmt = Invalid ''Text cannot be empty'')
   \<and> (1 \<le> length (strip text) \<and> length (strip text) \<le> 9
        \<longrightarrow> validate_input text fmt = Invalid ''Text too short for meaningful analysis'')
   \<and> (length (strip text) < 10
        \<longrightarrow> process_text stages text uid fmt st
              = (Some (''Error: '' @ error (validate_input text fmt)), st))
   \<and> (10 \<le> length (strip text)
        \<longrightarrow> (\<exists>f w c. validate_input text fmt = Valid (strip text) f w c)
            \<and> process_text stages text uid fmt st = stages (strip text) uid fmt st)"
proof (intro conjI impI)
  show "(length (strip text) < 10) = (\<exists>e. validate_input text fmt = Invalid e)"
    by (auto simp add: validate_input_cases)
  show "(\<forall>c \<in> set text. isspace c) = (strip text = [])"
    by (simp add: strip_empty_iff)
  show "validate_input text fmt = Invalid ''Text cannot be empty''" if "strip text = []"
    using that by (simp add: validate_input_cases)
  show "validate_input text fmt = Invalid ''Text too short for meaningful analysis''"
    if "1 \<le> length (strip text) \<and> length (strip text) \<le> 9"
    using that by (auto simp add: validate_input_cases)
  show "process_text stages text uid fmt st
          = (Some (''Error: '' @ error (validate_input text fmt)), st)"
    if "length (strip text) < 10"
    using that by (auto simp add: process_text_def validate_input_cases Let_def)
  show "\<exists>f w c. validate_input text fmt = Valid (strip text) f w c"
    if "10 \<le> length (strip text)"
    using that by (auto simp add: validate_input_cases)
  show "process_text stages text uid fmt st = stages (strip text) uid fmt st"
    if "10 \<le> length (strip text)"
    using that
    by (auto simp add: process_text_def validate_input_cases prepare_for_analysis_def Let_def)
qed

theorem validate_input_gate_witness:
  "validate_input ''   '' None = Invalid ''Text cannot be empty''
   \<and> validate_input ''  too short '' (Some ''essay'')
       = Invalid ''Text too short for meaningful analysis''
   \<and> process_text (\<lambda>text uid fmt runs. (Some ''analysed'', Suc runs)) ''  too short ''
         ''default_user'' (Some ''essay'') (0 :: nat)
       = (Some ''Error: Text too short for meaningful analysis'', 0)
   \<and> process_text (\<lambda>text uid fmt runs. (Some text, Suc runs)) '' Long enough.  ''
         ''default_user'' None (0 :: nat)
       = (Some ''Long enough.'', 1)"
proof -
  have s1: "strip ''   '' = []" by code_simp
  have s2: "strip ''  too short '' = ''too short''" by code_simp
  have s3: "strip '' Long enough.  '' = ''Long enough.''" by code_simp
  note g1 = validate_input_gate [of "''   ''" None]
  note g2 = validate_input_gate [of "''  too short ''" "Some ''essay''"
        "\<lambda>text uid fmt runs. (Some ''analysed'', Suc runs)" "''default_user''" "0 :: nat"]
  note g3 = validate_input_gate [of "'' Long enough.  ''" None
        "\<lambda>text uid fmt runs. (Some text, Suc runs)" "''default_user''" "0 :: nat"]
  have a: "validate_input ''   '' None = Invalid ''Text cannot be empty''"
    using g1 [THEN conjunct2, THEN conjunct2, THEN conjunct1] s1 by simp
  have b: "validate_input ''  too short '' (Some ''essay'')
       = Invalid ''Text too short for meaningful analysis''"
    using g2 [THEN conjunct2, THEN conjunct2, THEN conjunct2, THEN conjunct1]
    by (simp add: s2)
  have c: "process_text (\<lambda>text uid fmt runs. (Some ''analysed'', Suc runs)) ''  too short ''
         ''default_user'' (Some ''essay'') (0 :: nat)
       = (Some ''Error: Text too short for meaningful analysis'', 0)"
    using g2 [THEN conjunct2, THEN conjunct2, THEN conjunct2, THEN conjunct2, THEN conjunct1]
    by (simp add: s2 b)
  have d: "process_text (\<lambda>text uid fmt runs. (Some text, Suc runs)) '' Long enough.  ''
         ''default_user'' None (0 :: nat)
       = (Some ''Long enough.'', 1)"
    using g3 [THEN conjunct2, THEN conjunct2, THEN conjunct2, THEN conjunct2, THEN conjunct2]
    by (simp add: s3)
  show ?thesis using a b c d by simp
qed

section \<open>Results about the suggestion generator\<close>









text \<open>
  The claim as written has one rewrite for each sentence of more than 25 tokens. The code
  cuts the text at full stops only. Two questions of 26 words each, with no full stop
  between them, are one piece of 52 words and get one rewrite, not two; a sentence of 28
  words with the number 3.14 in it is cut inside the number into pieces of 15 and 14
  words and gets none.
\<close>

theorem rewrite_per_sentence_counterexample:
  "25 < length (split_ws ''a b c d e f g h i j k l m n o p q r s t u v w x y z?'')
   \<and> length (rewrite_suggestions (generate_mock_suggestions
        (''a b c d e f g h i j k l m n o p q r s t u v w x y z?'' @ '' ''
           @ ''a b c d e f g h i j k l m n o p q r s t u v w x y z?'')
        empty_analysis ''general'')) = 1
   \<and> 25 < length (split_ws ''a b c d e f g h i j k l m costs 3.14 n o p q r s t u v w x y z'')
   \<and> rewrite_suggestions (generate_mock_suggestions
        ''a b c d e f g h i j k l m costs 3.14 n o p q r s t u v w x y z.''
        empty_analysis ''general'') = []"
proof -
  have a: "25 < length (split_ws ''a b c d e f g h i j k l m n o p q r s t u v w x y z?'')"
    by code_simp
  have b: "length (get_rewrite_suggestions
        (''a b c d e f g h i j k l m n o p q r s t u v w x y z?'' @ '' ''
           @ ''a b c d e f g h i j k l m n o p q r s t u v w x y z?'') empty_analysis) = 1"
    by code_simp
  have c: "25 < length (split_ws ''a b c d e f g h i j k l m costs 3.14 n o p q r s t u v w x y z'')"
    by code_simp
  have d: "get_rewrite_suggestions
        ''a b c d e f g h i j k l m costs 3.14 n o p q r s t u v w x y z.'' empty_analysis = []"
    by code_simp
  show ?thesis using a b c d by (simp add: generate_mock_suggestions_def)
qed

lemma request_failure_falls_back:
  "generate_suggestions Gemini decode py_str Request_failed text a fmt
     = generate_mock_suggestions text a fmt
   \<and> generate_suggestions OpenAI decode py_str Request_failed text a fmt
     = generate_mock_suggestions text a fmt"
  by (simp add: generate_suggestions_def generate_gemini_suggestions_def
      generate_openai_suggestions_def)

lemma parse_failure_uses_placeholders:
  assumes "json_loads decode (extract_json_str response) = None"
  shows "parse_ai_response decode py_str response
           = generate_mock_suggestions [] empty_analysis ''general''"
  using assms by (simp add: parse_ai_response_def Let_def)

lemma placeholder_suggestions:
  "generate_mock_suggestions [] empty_analysis ''general''
     = \<lparr>overall_feedback = JString
          ''Your general might be difficult to read. Consider simplifying complex sentences.'',
        specific_improvements = [],
        rewrite_suggestions = [],
        format_specific_tips = [''Be clear and concise'', ''Use appropriate tone for audience'',
                                ''Proofread carefully'']\<rparr>"
  by (simp add: generate_mock_suggestions_def get_overall_feedback_def empty_analysis_def
      get_specific_improvements_def get_rewrite_suggestions_def split_str_def split_ws_def
      get_format_tips_def format_tips_def Let_def)

text \<open>
  C3. The claim: when the reply of an external strategy fails to parse, or the request
  fails, \<open>generate_suggestions\<close> returns the deterministic strategy's suggestions for the
  submitted text, analysis and format. The code does so when the request fails. When the
  reply fails to parse, \<open>parse_ai_response\<close> calls the deterministic strategy on the empty
  text, the empty analysis and the format "general" instead: for the reply
  "Sorry, no suggestions today." to an email submission, the caller gets the suggestions
  of an empty general text, which are not those of the submission.
\<close>

theorem parse_failure_drops_submission:
  "generate_suggestions Gemini decode py_str (Response ''Sorry, no suggestions today.'')
       ''Please find the report attached.'' analysis2 ''email''
     = generate_mock_suggestions [] empty_analysis ''general''
   \<and> generate_mock_suggestions [] empty_analysis ''general''
     \<noteq> generate_mock_suggestions ''Please find the report attached.'' analysis2 ''email''
   \<and> generate_suggestions Gemini decode py_str Request_failed
       ''Please find the report attached.'' analysis2 ''email''
     = generate_mock_suggestions ''Please find the report attached.'' analysis2 ''email''"
proof (intro conjI)
  have x: "extract_json_str ''Sorry, no suggestions today.'' = ''Sorry, no suggestions today.''"
    by code_simp
  have "json_loads decode ''Sorry, no suggestions today.'' = None"
    by (simp add: json_loads_def json_value_start_def)
  then have "parse_ai_response decode py_str ''Sorry, no suggestions today.''
       = generate_mock_suggestions [] empty_analysis ''general''"
    by (intro parse_failure_uses_placeholders) (simp add: x)
  then show "generate_suggestions Gemini decode py_str (Response ''Sorry, no suggestions today.'')
       ''Please find the report attached.'' analysis2 ''email''
     = generate_mock_suggestions [] empty_analysis ''general''"
    by (simp add: generate_suggestions_def generate_gemini_suggestions_def analysis2_def)
  have "format_specific_tips (generate_mock_suggestions [] empty_analysis ''general'')
      \<noteq> format_specific_tips
          (generate_mock_suggestions ''Please find the report attached.'' analysis2 ''email'')"
    by (simp add: generate_mock_suggestions_def get_format_tips_def format_tips_def)
  then show "generate_mock_suggestions [] empty_analysis ''general''
     \<noteq> generate_mock_suggestions ''Please find the report attached.'' analysis2 ''email''"
    by auto
  show "generate_suggestions Gemini decode py_str Request_failed
       ''Please find the report attached.'' analysis2 ''email''
     = generate_mock_suggestions ''Please find the report attached.'' analysis2 ''email''"
    by (simp add: request_failure_falls_back)
qed

section \<open>Results about the format classifier\<close>

lemma split_from_not_empty: "split_from sep piece s \<noteq> []"
  by (induction sep piece s rule: split_from.induct) simp_all

lemma avg_paragraph_words_eq:
  "avg_paragraph_words t
     = of_nat (sum_list (map (\<lambda>p. length (split_ws p)) (split_str [CHR 0x0A, CHR 0x0A] t)))
         / of_nat (length (split_str [CHR 0x0A, CHR 0x0A] t))"
  by (simp add: avg_paragraph_words_def paragraphs_of_def Let_def split_str_def
      split_from_not_empty)

lemma check_structure_points:
  "check_structure t elements =
     (if ''short_paragraphs'' \<in> set elements
         \<and> of_nat (sum_list (map (\<lambda>p. length (split_ws p))
                                (split_str [CHR 0x0A, CHR 0x0A] t)))
               / of_nat (length (split_str [CHR 0x0A, CHR 0x0A] t)) < (75 :: rat)
      then 1 else 0)
     + (if ''greeting'' \<in> set elements \<and> re_match True False greeting t then 2 else 0)
     + (if ''closing'' \<in> set elements \<and> re_search True True closing t then 2 else 0)
     + (if ''headings'' \<in> set elements \<and> re_search False True heading t then 2 else 0)
     + (if ''dialogue'' \<in> set elements \<and> re_search False False quoted t then 3 else 0)"
  unfolding check_structure_def Let_def avg_paragraph_words_eq
  by simp

lemma known_formats:
  "map fst format_rules = [''email'', ''essay'', ''report'', ''creative'', ''general'']"
  by (simp add: format_rules_def)

text \<open>
  C7. For every text and every user-specified format among email, essay, report, creative
  and general (the formats that have rules), \<open>classify\<close> returns that format with
  confidence 1: the text is not looked at.
\<close>

theorem classify_specified_format:
  "fmt \<in> {''email'', ''essay'', ''report'', ''creative'', ''general''}
     \<longrightarrow> classify text (Some fmt) = (fmt, 1)"
  by (auto simp add: classify_def known_formats)

theorem classify_specified_format_witness:
  "classify ''Once upon a time the sun felt warm.'' (Some ''report'') = (''report'', 1)
   \<and> fst (classify ''Once upon a time the sun felt warm.'' None) \<noteq> ''report''"
proof -
  have "fst (classify ''Once upon a time the sun felt warm.'' None) \<noteq> ''report''"
    by code_simp
  then show ?thesis
    using classify_specified_format [of "''report''" "''Once upon a time the sun felt warm.''"]
    by simp
qed

lemma foldl_count_when:
  "foldl (\<lambda>score x. if P x then score + k else score) init xs
     = init + k * length (filter P xs)"
  by (induction xs arbitrary: init) simp_all

lemma format_score_eq:
  "format_score text ind =
     length (filter (\<lambda>keyword. contains (lower keyword) (lower text)) (indicator_keywords ind))
     + 2 * length (filter (\<lambda>p. re_search True True p text) (indicator_patterns ind))
     + check_structure text (indicator_structural ind)"
  unfolding format_score_def Let_def foldl_count_when
  by simp

lemma max_by_first:
  "\<exists>pre post. b # xs = pre @ [max_by key b xs] @ post
     \<and> (\<forall>y \<in> set pre. key y < key (max_by key b xs))
     \<and> (\<forall>y \<in> set post. key y \<le> key (max_by key b xs))"
proof (induction xs arbitrary: b)
  case Nil
  have "[b] = [] @ [max_by key b []] @ []" by simp
  then show ?case by fastforce
next
  case (Cons x xs)
  show ?case
  proof (cases "key x > key b")
    case True
    from Cons.IH [of x] obtain pre post where
      s: "x # xs = pre @ [max_by key x xs] @ post"
      and lt: "\<forall>y \<in> set pre. key y < key (max_by key x xs)"
      and le: "\<forall>y \<in> set post. key y \<le> key (max_by key x xs)"
      by blast
    have m: "max_by key b (x # xs) = max_by key x xs" using True by simp
    have "key x \<le> key (max_by key x xs)"
    proof (cases pre)
      case Nil
      with s have "x = max_by key x xs" by auto
      then show ?thesis by (metis le_refl)
    next
      case (Cons p ps)
      with s have "p = x" by auto
      then show ?thesis using lt Cons by auto
    qed
    then have b: "key b < key (max_by key x xs)" using True by simp
    have "b # x # xs = (b # pre) @ [max_by key x xs] @ post" using s by simp
    moreover have "\<forall>y \<in> set (b # pre). key y < key (max_by key x xs)" using lt b by simp
    ultimately show ?thesis unfolding m using le by blast
  next
    case False
    from Cons.IH [of b] obtain pre post where
      s: "b # xs = pre @ [max_by key b xs] @ post"
      and lt: "\<forall>y \<in> set pre. key y < key (max_by key b xs)"
      and le: "\<forall>y \<in> set post. key y \<le> key (max_by key b xs)"
      by blast
    have m: "max_by key b (x # xs) = max_by key b xs" using False by simp
    show ?thesis
    proof (cases pre)
      case Nil
      with s have e: "max_by key b xs = b" "post = xs" by auto
      have "b # x # xs = [] @ [max_by key b xs] @ (x # post)" by (simp add: e)
      moreover have "\<forall>y \<in> set (x # post). key y \<le> key (max_by key b xs)"
        using le False e by auto
      ultimately show ?thesis unfolding m by fastforce
    next
      case (Cons p ps)
      with s have pb: "p = b" and t: "xs = ps @ [max_by key b xs] @ post" by auto
      have kb: "key b < key (max_by key b xs)" using lt Cons pb by simp
      have "b # x # xs = (b # x # ps) @ [max_by key b xs] @ post" using t by simp
      moreover have "\<forall>y \<in> set (b # x # ps). key y < key (max_by key b xs)"
        using lt Cons kb False by auto
      ultimately show ?thesis unfolding m using le by blast
    qed
  qed
qed

lemma format_scores_names:
  "map fst (format_scores text) = [''email'', ''essay'', ''report'', ''creative'']"
  by (simp add: format_scores_def format_indicators_def)

lemma classify_unspecified:
  assumes "format_scores text = s # ss"
  shows "classify text None =
     (let best = max_by snd s ss;
          total = sum_list (map snd (format_scores text));
          confidence = (if total > 0 then of_nat (snd best) / of_nat total else 0)
      in (if confidence < 0.3 then ''general'' else fst best, confidence))"
  using assms by (simp add: classify_def Let_def)

text \<open>
  C5. For a text with no user-specified format, the score of each of email, essay, report
  and creative, in this order, is the number of its keywords that occur in the text
  (case-insensitive), plus 2 for each of its patterns that matches, plus the points of its
  structural indicators. The best format is the first one with the maximal score: every
  format before it scores less, none after it scores more. The confidence is its score
  divided by the sum of the four scores, or 0 when they are all 0. When the confidence is
  below 0.3 the returned format is "general"; the returned confidence is the computed
  one either way.
\<close>

theorem classify_by_scores:
  "format_scores text
     = map (\<lambda>(format_type, ind).
              (format_type,
               length (filter (\<lambda>keyword. contains (lower keyword) (lower text))
                        (indicator_keywords ind))
               + 2 * length (filter (\<lambda>p. re_search True True p text) (indicator_patterns ind))
               + check_structure text (indicator_structural ind)))
         format_indicators
   \<and> check_structure text elements
       = (if ''short_paragraphs'' \<in> set elements
             \<and> of_nat (sum_list (map (\<lambda>p. length (split_ws p))
                                    (split_str [CHR 0x0A, CHR 0x0A] text)))
                   / of_nat (length (split_str [CHR 0x0A, CHR 0x0A] text)) < (75 :: rat)
          then 1 else 0)
         + (if ''greeting'' \<in> set elements \<and> re_match True False greeting text
            then 2 else 0)
         + (if ''closing'' \<in> set elements \<and> re_search True True closing text
            then 2 else 0)
         + (if ''headings'' \<in> set elements \<and> re_search False True heading text
            then 2 else 0)
         + (if ''dialogue'' \<in> set elements \<and> re_search False False quoted text
            then 3 else 0)
   \<and> map fst (format_scores text) = [''email'', ''essay'', ''report'', ''creative'']
   \<and> (\<exists>pre best post.
         format_scores text = pre @ [best] @ post
         \<and> (\<forall>earlier \<in> set pre. snd earlier < snd best)
         \<and> (\<forall>later \<in> set post. snd later \<le> snd best)
         \<and> snd (classify text None)
             = (if sum_list (map snd (format_scores text)) = 0 then 0
                else of_nat (snd best) / of_nat (sum_list (map snd (format_scores text))))
         \<and> fst (classify text None)
             = (if snd (classify text None) < 0.3 then ''general'' else fst best))"
proof (intro conjI)
  show "format_scores text
     = map (\<lambda>(format_type, ind).
              (format_type,
               length (filter (\<lambda>keyword. contains (lower keyword) (lower text))
                        (indicator_keywords ind))
               + 2 * length (filter (\<lambda>p. re_search True True p text) (indicator_patterns ind))
               + check_structure text (indicator_structural ind)))
         format_indicators"
    by (simp add: format_scores_def format_score_eq)
  show "check_structure text elements
       = (if ''short_paragraphs'' \<in> set elements
             \<and> of_nat (sum_list (map (\<lambda>p. length (split_ws p))
                                    (split_str [CHR 0x0A, CHR 0x0A] text)))
                   / of_nat (length (split_str [CHR 0x0A, CHR 0x0A] text)) < (75 :: rat)
          then 1 else 0)
         + (if ''greeting'' \<in> set elements \<and> re_match True False greeting text
            then 2 else 0)
         + (if ''closing'' \<in> set elements \<and> re_search True True closing text
            then 2 else 0)
         + (if ''headings'' \<in> set elements \<and> re_search False True heading text
            then 2 else 0)
         + (if ''dialogue'' \<in> set elements \<and> re_search False False quoted text
            then 3 else 0)"
    by (rule check_structure_points)
  show n: "map fst (format_scores text) = [''email'', ''essay'', ''report'', ''creative'']"
    by (rule format_scores_names)
  from n obtain s ss where c: "format_scores text = s # ss"
    by (cases "format_scores text") auto
  from max_by_first [of s ss snd] obtain pre post where
    d: "s # ss = pre @ [max_by snd s ss] @ post"
    and lt: "\<forall>y \<in> set pre. snd y < snd (max_by snd s ss)"
    and le: "\<forall>y \<in> set post. snd y \<le> snd (max_by snd s ss)"
    by blast
  have conf: "snd (classify text None)
      = (if sum_list (map snd (format_scores text)) = 0 then 0
         else of_nat (snd (max_by snd s ss)) / of_nat (sum_list (map snd (format_scores text))))"
    by (simp add: classify_unspecified [OF c] Let_def)
  have win: "fst (classify text None)
      = (if snd (classify text None) < 0.3 then ''general'' else fst (max_by snd s ss))"
    by (simp add: classify_unspecified [OF c] Let_def)
  show "\<exists>pre best post.
         format_scores text = pre @ [best] @ post
         \<and> (\<forall>earlier \<in> set pre. snd earlier < snd best)
         \<and> (\<forall>later \<in> set post. snd later \<le> snd best)
         \<and> snd (classify text None)
             = (if sum_list (map snd (format_scores text)) = 0 then 0
                else of_nat (snd best) / of_nat (sum_list (map snd (format_scores text))))
         \<and> fst (classify text None)
             = (if snd (classify text None) < 0.3 then ''general'' else fst best)"
  proof (intro exI conjI)
    show "format_scores text = pre @ [max_by snd s ss] @ post" using c d by simp
    show "\<forall>earlier \<in> set pre. snd earlier < snd (max_by snd s ss)" by (rule lt)
    show "\<forall>later \<in> set post. snd later \<le> snd (max_by snd s ss)" by (rule le)
    show "snd (classify text None)
      = (if sum_list (map snd (format_scores text)) = 0 then 0
         else of_nat (snd (max_by snd s ss)) / of_nat (sum_list (map snd (format_scores text))))"
      by (rule conf)
    show "fst (classify text None)
      = (if snd (classify text None) < 0.3 then ''general'' else fst (max_by snd s ss))"
      by (rule win)
  qed
qed

theorem classify_by_scores_witness:
  "format_scores ''Dear John, I hope this finds you well. Best regards, Sarah''
       = [(''email'', 9), (''essay'', 0), (''report'', 0), (''creative'', 0)]
   \<and> classify ''Dear John, I hope this finds you well. Best regards, Sarah'' None
       = (''email'', 1)
   \<and> format_scores ''See you soon. Thanks,''
       = [(''email'', 3), (''essay'', 0), (''report'', 0), (''creative'', 0)]
   \<and> format_scores (''Summary'' @ [CHR 0x0A] @ ''All good here'')
       = [(''email'', 1), (''essay'', 0), (''report'', 2), (''creative'', 0)]
   \<and> classify (''Summary'' @ [CHR 0x0A] @ ''All good here'') None = (''report'', 2 / 3)
   \<and> format_scores (''He said '' @ [CHR 0x22] @ ''go'' @ [CHR 0x22] @ '' now'')
       = [(''email'', 1), (''essay'', 0), (''report'', 2), (''creative'', 5)]
   \<and> classify (''He said '' @ [CHR 0x22] @ ''go'' @ [CHR 0x22] @ '' now'') None
       = (''creative'', 5 / 8)
   \<and> format_scores ''however she felt results''
       = [(''email'', 1), (''essay'', 1), (''report'', 1), (''creative'', 1)]
   \<and> classify ''however she felt results'' None = (''general'', 1 / 4)
   \<and> format_scores ''however''
       = [(''email'', 1), (''essay'', 1), (''report'', 0), (''creative'', 0)]
   \<and> classify ''however'' None = (''email'', 1 / 2)"
proof -
  have greeting_case: "format_scores ''Dear John, I hope this finds you well. Best regards, Sarah''
       = [(''email'', 9), (''essay'', 0), (''report'', 0), (''creative'', 0)]"
    by code_simp
  have a: "classify ''Dear John, I hope this finds you well. Best regards, Sarah'' None
             = (''email'', 1)"
    by code_simp
  have closing_case: "format_scores ''See you soon. Thanks,''
       = [(''email'', 3), (''essay'', 0), (''report'', 0), (''creative'', 0)]"
    by code_simp
  have heading_case: "format_scores (''Summary'' @ [CHR 0x0A] @ ''All good here'')
       = [(''email'', 1), (''essay'', 0), (''report'', 2), (''creative'', 0)]"
    by code_simp
  have heading_class:
    "classify (''Summary'' @ [CHR 0x0A] @ ''All good here'') None = (''report'', 2 / 3)"
    by code_simp
  have dialogue_case:
    "format_scores (''He said '' @ [CHR 0x22] @ ''go'' @ [CHR 0x22] @ '' now'')
       = [(''email'', 1), (''essay'', 0), (''report'', 2), (''creative'', 5)]"
    by code_simp
  have dialogue_class:
    "classify (''He said '' @ [CHR 0x22] @ ''go'' @ [CHR 0x22] @ '' now'') None
       = (''creative'', 5 / 8)"
    by code_simp
  have b: "format_scores ''however she felt results''
       = [(''email'', 1), (''essay'', 1), (''report'', 1), (''creative'', 1)]"
    by code_simp
  have c: "classify ''however she felt results'' None = (''general'', 1 / 4)"
    by code_simp
  have d: "format_scores ''however''
       = [(''email'', 1), (''essay'', 1), (''report'', 0), (''creative'', 0)]"
    by code_simp
  have e: "classify ''however'' None = (''email'', 1 / 2)"
    by code_simp
  show ?thesis
    using classify_by_scores [of "''however she felt results''"]
      greeting_case a closing_case heading_case heading_class dialogue_case dialogue_class
      b c d e
    by simp
qed

lemma foldl_missing:
  "foldl (\<lambda>st element. (fst st @ [r element], snd st * c)) st xs
     = (fst st @ map r xs, snd st * (c :: rat) ^ length xs)"
  by (induction xs arbitrary: st) simp_all

lemma check_required_elements_eq:
  "check_required_elements text required format_type
     = filter (\<lambda>element. case map_of element_checks element of
                            Some check \<Rightarrow> \<not> check text
                          | None \<Rightarrow> False) required"
proof -
  have "foldl (\<lambda>missing element.
              case map_of element_checks element of
                Some check \<Rightarrow> if \<not> check text then missing @ [element] else missing
              | None \<Rightarrow> missing) init required
      = init @ filter (\<lambda>element. case map_of element_checks element of
                            Some check \<Rightarrow> \<not> check text
                          | None \<Rightarrow> False) required" for init
    by (induction required arbitrary: init) (simp_all split: option.splits)
  then show ?thesis by (simp add: check_required_elements_def)
qed

lemma required_elements_bound: "length (required_elements (rules_for format_type)) \<le> 4"
  by (simp add: rules_for_def format_rules_def)

lemma missing_elements_bound:
  "length (check_required_elements text (required_elements (rules_for format_type)) format_type)
     \<le> 4"
proof -
  have "length (check_required_elements text (required_elements (rules_for format_type))
                  format_type)
          \<le> length (required_elements (rules_for format_type))"
    by (simp add: check_required_elements_eq)
  then show ?thesis using required_elements_bound [of format_type] by linarith
qed

lemma apply_format_rules_compliance:
  assumes "basic_stats_of a = Some stats"
  shows "\<exists>r. apply_format_rules up text format_type a = Some r
     \<and> compliance_score r
         = compliance_of up (too_short format_type (word_count stats))
             (too_long format_type (word_count stats)) (long_paragraphs format_type text)
             (length (check_required_elements text (required_elements (rules_for format_type))
                        format_type))"
  using assms
  unfolding apply_format_rules_def Let_def foldl_missing compliance_of_def too_short_def
    too_long_def long_paragraphs_def avg_paragraph_words_eq
  by (simp split: option.splits)

lemma compliance_of_range:
  assumes "k \<le> 4"
  shows "0 < compliance_of up s l p k \<and> compliance_of up s l p k \<le> 1"
proof -
  define y :: rat where "y = 0.85 ^ k"
  have "(0.85 :: rat) ^ 4 \<le> 0.85 ^ k"
    by (rule power_decreasing [OF assms]) simp_all
  then have lo: "0.52 \<le> y" unfolding y_def by (simp add: power4_eq_xxxx)
  have hi: "y \<le> 1" unfolding y_def by (rule power_le_one) simp_all
  define x :: rat where
    "x = 1 * (if s then 0.8 else 1) * (if l then 0.9 else 1) * (if p then 0.9 else 1) * y"
  have x_lo: "33 / 100 \<le> x" using lo unfolding x_def by (cases s; cases l; cases p) simp_all
  have x_hi: "x \<le> 1" using hi lo unfolding x_def by (cases s; cases l; cases p) simp_all
  have c: "compliance_of up s l p k = round2 up x"
    by (simp add: compliance_of_def x_def y_def)
  have a: "round2 up (33 / 100) = 33 / 100"
    by (rule round2_two_decimals) (simp add: two_decimals_def)
  have b: "round2 up 1 = 1"
    by (rule round2_two_decimals) (simp add: two_decimals_def)
  have "33 / 100 \<le> round2 up x" using round2_mono [OF x_lo, of up] a by simp
  moreover have "round2 up x \<le> 1" using round2_mono [OF x_hi, of up] b by simp
  ultimately show ?thesis unfolding c by simp
qed

lemma factor_mono:
  "(v \<longrightarrow> v') \<Longrightarrow> 0 \<le> c \<Longrightarrow> c \<le> 1
     \<Longrightarrow> (if v' then c else 1) \<le> (if v then c else (1 :: rat))"
  by auto

lemma compliance_of_mono:
  assumes "s \<longrightarrow> s'" "l \<longrightarrow> l'" "p \<longrightarrow> p'" "k \<le> k'"
  shows "compliance_of up s' l' p' k' \<le> compliance_of up s l p k"
proof -
  have f1: "(if s' then 0.8 else 1) \<le> (if s then 0.8 else (1 :: rat))"
    using assms(1) by auto
  have f2: "(if l' then 0.9 else 1) \<le> (if l then 0.9 else (1 :: rat))"
    using assms(2) by auto
  have f3: "(if p' then 0.9 else 1) \<le> (if p then 0.9 else (1 :: rat))"
    using assms(3) by auto
  have f4: "(0.85 :: rat) ^ k' \<le> 0.85 ^ k"
    by (rule power_decreasing [OF assms(4)]) simp_all
  have n1: "0 \<le> (if s' then 0.8 else (1 :: rat))" by simp
  have n2: "0 \<le> (if l' then 0.9 else (1 :: rat))" by simp
  have n3: "0 \<le> (if p' then 0.9 else (1 :: rat))" by simp
  have m1: "0 \<le> (if s then 0.8 else (1 :: rat))" by simp
  have m2: "0 \<le> (if l then 0.9 else (1 :: rat))" by simp
  have m3: "0 \<le> (if p then 0.9 else (1 :: rat))" by simp
  have n4: "0 \<le> (0.85 :: rat) ^ k'" by simp
  have a: "(if s' then 0.8 else 1) * (if l' then 0.9 else 1)
             \<le> (if s then 0.8 else 1) * (if l then 0.9 else (1 :: rat))"
    by (rule mult_mono [OF f1 f2 m1 n2])
  have b: "(if s' then 0.8 else 1) * (if l' then 0.9 else 1) * (if p' then 0.9 else 1)
             \<le> (if s then 0.8 else 1) * (if l then 0.9 else 1) * (if p then 0.9 else (1 :: rat))"
    by (rule mult_mono [OF a f3 _ n3]) (rule mult_nonneg_nonneg [OF m1 m2])
  have c: "(if s' then 0.8 else 1) * (if l' then 0.9 else 1) * (if p' then 0.9 else 1)
               * 0.85 ^ k'
             \<le> (if s then 0.8 else 1) * (if l then 0.9 else 1) * (if p then 0.9 else (1 :: rat))
                 * 0.85 ^ k"
    by (rule mult_mono [OF b f4 _ n4])
       (rule mult_nonneg_nonneg [OF mult_nonneg_nonneg [OF m1 m2] m3])
  show ?thesis
    unfolding compliance_of_def mult_1
    by (rule round2_mono [OF c])
qed

text \<open>
  C4. For every text, format and analysis (with its basic statistics; without them the
  function raises), the compliance score of \<open>apply_format_rules\<close> is the product, rounded
  to two decimals, of 1, of 0.8 if the word count is below the minimum length of the
  format, of 0.9 if it is above the maximum length, of 0.9 if the average paragraph length
  is above 1.5 times the preferred length, and of 0.85 for each required element whose
  detector does not find it; an element without a detector is skipped. The score is
  greater than 0 and at most 1, and more violations never give a greater score.
\<close>

theorem compliance_score_rules:
  "(basic_stats_of a = None \<longrightarrow> apply_format_rules up content fmt a = None)
   \<and> (basic_stats_of a = Some stats \<longrightarrow>
        (\<exists>r. apply_format_rules up content fmt a = Some r
           \<and> compliance_score r
               = compliance_of up (too_short fmt (word_count stats))
                   (too_long fmt (word_count stats)) (long_paragraphs fmt content)
                   (length (filter (\<lambda>element. case map_of element_checks element of
                                                  Some check \<Rightarrow> \<not> check content
                                                | None \<Rightarrow> False)
                              (required_elements (rules_for fmt))))
           \<and> 0 < compliance_score r \<and> compliance_score r \<le> 1))
   \<and> ((s \<longrightarrow> s') \<and> (l \<longrightarrow> l') \<and> (p \<longrightarrow> p') \<and> k \<le> k'
        \<longrightarrow> compliance_of up s' l' p' k' \<le> compliance_of up s l p k)"
proof (intro conjI impI)
  assume "basic_stats_of a = None"
  then show "apply_format_rules up content fmt a = None"
    by (simp add: apply_format_rules_def Let_def)
next
  assume st: "basic_stats_of a = Some stats"
  from apply_format_rules_compliance [OF st, of up content fmt] obtain r where
    r: "apply_format_rules up content fmt a = Some r"
    and c: "compliance_score r
         = compliance_of up (too_short fmt (word_count stats))
             (too_long fmt (word_count stats)) (long_paragraphs fmt content)
             (length (check_required_elements content (required_elements (rules_for fmt)) fmt))"
    by blast
  note rg = compliance_of_range [OF missing_elements_bound [of content fmt], of up
      "too_short fmt (word_count stats)" "too_long fmt (word_count stats)"
      "long_paragraphs fmt content"]
  show "\<exists>r. apply_format_rules up content fmt a = Some r
           \<and> compliance_score r
               = compliance_of up (too_short fmt (word_count stats))
                   (too_long fmt (word_count stats)) (long_paragraphs fmt content)
                   (length (filter (\<lambda>element. case map_of element_checks element of
                                                  Some check \<Rightarrow> \<not> check content
                                                | None \<Rightarrow> False)
                              (required_elements (rules_for fmt))))
           \<and> 0 < compliance_score r \<and> compliance_score r \<le> 1"
  proof (intro exI conjI)
    show "apply_format_rules up content fmt a = Some r" by (rule r)
    show "compliance_score r
               = compliance_of up (too_short fmt (word_count stats))
                   (too_long fmt (word_count stats)) (long_paragraphs fmt content)
                   (length (filter (\<lambda>element. case map_of element_checks element of
                                                  Some check \<Rightarrow> \<not> check content
                                                | None \<Rightarrow> False)
                              (required_elements (rules_for fmt))))"
      using c by (simp add: check_required_elements_eq)
    show "0 < compliance_score r" using rg c by simp
    show "compliance_score r \<le> 1" using rg c by simp
  qed
next
  assume "(s \<longrightarrow> s') \<and> (l \<longrightarrow> l') \<and> (p \<longrightarrow> p') \<and> k \<le> k'"
  then show "compliance_of up s' l' p' k' \<le> compliance_of up s l p k"
    by (intro compliance_of_mono) simp_all
qed

theorem compliance_score_rules_witness:
  "compliance_score (the (apply_format_rules ties_to_even ''Overview of the findings.''
       ''report'' analysis1)) = 0.8
   \<and> compliance_score (the (apply_format_rules ties_to_even ''We walked home.''
       ''essay'' analysis1)) = 0.61
   \<and> long_paragraphs ''email'' (''Hi Bob '' @ concat (replicate 80 ''a '') @ ''thanks'')
   \<and> compliance_score (the (apply_format_rules ties_to_even
         (''Hi Bob '' @ concat (replicate 80 ''a '') @ ''thanks'') ''email'' analysis1)) = 0.9
   \<and> compliance_score (the (apply_format_rules ties_to_even ''Hi Bob thanks''
         ''email'' analysis1)) = 1
   \<and> apply_format_rules ties_to_even ''We walked home.'' ''essay'' empty_analysis = None
   \<and> compliance_of ties_to_even True False False 1 \<le> compliance_of ties_to_even False False False 0"
proof -
  note g1 = compliance_score_rules
    [where a = analysis1 and up = ties_to_even and content = "''Overview of the findings.''"
       and fmt = "''report''"
       and stats = "\<lparr>sentence_count = 0, word_count = 300, avg_words_per_sentence = 25,
               char_count = 0, unique_words = 0\<rparr>"
       and s = False and s' = True and l = False and l' = False and p = False and p' = False
       and k = 0 and k' = 1]
  note g2 = compliance_score_rules
    [where a = empty_analysis and up = ties_to_even and content = "''We walked home.''"
       and fmt = "''essay''"]
  have a: "compliance_score (the (apply_format_rules ties_to_even ''Overview of the findings.''
       ''report'' analysis1)) = 0.8"
    by code_simp
  have b: "compliance_score (the (apply_format_rules ties_to_even ''We walked home.''
       ''essay'' analysis1)) = 0.61"
    by code_simp
  have long_case:
    "long_paragraphs ''email'' (''Hi Bob '' @ concat (replicate 80 ''a '') @ ''thanks'')"
    by code_simp
  have long_score: "compliance_score (the (apply_format_rules ties_to_even
         (''Hi Bob '' @ concat (replicate 80 ''a '') @ ''thanks'') ''email'' analysis1)) = 0.9"
    by code_simp
  have short_score: "compliance_score (the (apply_format_rules ties_to_even ''Hi Bob thanks''
         ''email'' analysis1)) = 1"
    by code_simp
  have c: "apply_format_rules ties_to_even ''We walked home.'' ''essay'' empty_analysis = None"
    using g2 [THEN conjunct1] by (simp add: empty_analysis_def)
  have d: "compliance_of ties_to_even True False False 1
             \<le> compliance_of ties_to_even False False False 0"
    using g1 [THEN conjunct2, THEN conjunct2] by simp
  show ?thesis using a b long_case long_score short_score c d by simp
qed

end
